theory Spec2Isabelle
  imports Complex_Main
begin

section \<open>Python values used by trading\_bot.py\<close>

text \<open>
  Python \<open>str\<close> values are Isabelle strings, read as code points below 256 (Latin-1).
  \<open>bytes\<close> values are lists of numbers below 256. A Python \<open>float\<close> is represented by the
  rational number it denotes; the interpreter's float arithmetic (division, \<open>round\<close>,
  \<open>str\<close>) is supplied by the runtime record below. Infinities and NaN are outside this
  representation.
\<close>

type_synonym bytes = "nat list"

definition latin1_lower :: string where
  \<comment> \<open>The lower-case letters U+00E0 to U+00FE (all but the division sign U+00F7).\<close>
  "latin1_lower =
     [CHR 0xE0, CHR 0xE1, CHR 0xE2, CHR 0xE3, CHR 0xE4, CHR 0xE5, CHR 0xE6, CHR 0xE7, CHR
     0xE8, CHR 0xE9, CHR 0xEA, CHR 0xEB, CHR 0xEC, CHR 0xED, CHR 0xEE, CHR 0xEF, CHR 0xF0,
     CHR 0xF1, CHR 0xF2, CHR 0xF3, CHR 0xF4, CHR 0xF5, CHR 0xF6, CHR 0xF8, CHR 0xF9, CHR
     0xFA, CHR 0xFB, CHR 0xFC, CHR 0xFD, CHR 0xFE]"

definition latin1_upper :: string where
  \<comment> \<open>Their upper-case forms U+00C0 to U+00DE (all but the multiplication sign U+00D7).\<close>
  "latin1_upper =
     [CHR 0xC0, CHR 0xC1, CHR 0xC2, CHR 0xC3, CHR 0xC4, CHR 0xC5, CHR 0xC6, CHR 0xC7, CHR
     0xC8, CHR 0xC9, CHR 0xCA, CHR 0xCB, CHR 0xCC, CHR 0xCD, CHR 0xCE, CHR 0xCF, CHR 0xD0,
     CHR 0xD1, CHR 0xD2, CHR 0xD3, CHR 0xD4, CHR 0xD5, CHR 0xD6, CHR 0xD8, CHR 0xD9, CHR
     0xDA, CHR 0xDB, CHR 0xDC, CHR 0xDD, CHR 0xDE]"

definition upper_char :: "char \<Rightarrow> string" where
  \<comment> \<open>\<open>str.upper\<close> on one character: the ASCII and Latin-1 letters, and the sharp s U+00DF,
      whose upper-case form is \<open>SS\<close>. The upper-case forms of U+00B5 and U+00FF are not below
      256; these two characters are kept as they are.\<close>
  "upper_char c =
     (if c = CHR 0xDF then ''SS''
      else case map_of (zip (''abcdefghijklmnopqrstuvwxyz'' @ latin1_lower)
                            (''ABCDEFGHIJKLMNOPQRSTUVWXYZ'' @ latin1_upper)) c of
             Some u \<Rightarrow> [u]
           | None \<Rightarrow> [c])"

definition upper :: "string \<Rightarrow> string" where
  "upper s = concat (map upper_char s)"

definition lower_char :: "char \<Rightarrow> char" where
  "lower_char c =
     (case map_of (zip (''ABCDEFGHIJKLMNOPQRSTUVWXYZ'' @ latin1_upper)
                       (''abcdefghijklmnopqrstuvwxyz'' @ latin1_lower)) c of
        Some l \<Rightarrow> l
      | None \<Rightarrow> c)"

definition lower :: "string \<Rightarrow> string" where
  "lower s = map lower_char s"

definition rstrip :: "char \<Rightarrow> string \<Rightarrow> string" where
  \<comment> \<open>\<open>s.rstrip(c)\<close> for a one-character argument.\<close>
  "rstrip c s = rev (dropWhile (\<lambda>x. x = c) (rev s))"

definition digit_char :: "nat \<Rightarrow> char" where
  "digit_char d = ''0123456789'' ! (d mod 10)"

fun str_nat :: "nat \<Rightarrow> string" where
  "str_nat n = (if n < 10 then [digit_char n] else str_nat (n div 10) @ [digit_char (n mod 10)])"

declare str_nat.simps [simp del]

definition str_int :: "int \<Rightarrow> string" where
  \<comment> \<open>\<open>str(i)\<close> for a Python int.\<close>
  "str_int i = (if i < 0 then CHR ''-'' # str_nat (nat (- i)) else str_nat (nat i))"

definition str_bool :: "bool \<Rightarrow> string" where
  "str_bool b = (if b then ''True'' else ''False'')"

definition utf8_encode :: "string \<Rightarrow> bytes" where
  \<comment> \<open>\<open>s.encode('utf-8')\<close> for code points below 256: one byte below 128, two bytes above.\<close>
  "utf8_encode s =
     concat (map (\<lambda>c. let n = (of_char c :: nat)
                        in if n < 128 then [n] else [192 + n div 64, 128 + n mod 64]) s)"

datatype pyval = PStr string | PInt int

fun str_pyval :: "pyval \<Rightarrow> string" where
  "str_pyval (PStr s) = s"
| "str_pyval (PInt i) = str_int i"

text \<open>
  A \<open>dict\<close> keeps insertion order: an association list with distinct keys.
  \<open>d[k] = v\<close> overwrites the value of an existing key in its place and appends a new key
  at the end.
\<close>

type_synonym pydict = "(string \<times> pyval) list"

fun dict_set :: "string \<Rightarrow> pyval \<Rightarrow> pydict \<Rightarrow> pydict" where
  "dict_set k v [] = [(k, v)]"
| "dict_set k v ((k', v') # d) = (if k' = k then (k, v) # d else (k', v') # dict_set k v d)"

datatype json =
    JNull
  | JBool bool
  | JInt int
  | JFloat rat
  | JStr string
  | JList "json list"
  | JDict "(string \<times> json) list"

subsection \<open>urllib.parse.urlencode\<close>

definition hex_upper :: "nat \<Rightarrow> char" where
  "hex_upper d = ''0123456789ABCDEF'' ! (d mod 16)"

definition always_safe :: "char \<Rightarrow> bool" where
  \<comment> \<open>Letters, digits and \<open>_.-~\<close> are never quoted.\<close>
  "always_safe c =
     (c \<in> set (''ABCDEFGHIJKLMNOPQRSTUVWXYZ'' @ ''abcdefghijklmnopqrstuvwxyz'' @ ''0123456789''
               @ ''_.-~''))"

definition quote_char :: "char \<Rightarrow> string" where
  "quote_char c =
     (if always_safe c then [c]
      else if c = CHR '' '' then ''+''
      else concat (map (\<lambda>b. [CHR ''%'', hex_upper (b div 16), hex_upper b]) (utf8_encode [c])))"

definition quote_plus :: "string \<Rightarrow> string" where
  "quote_plus s = concat (map quote_char s)"

fun join :: "string \<Rightarrow> string list \<Rightarrow> string" where
  "join sep [] = []"
| "join sep [x] = x"
| "join sep (x # y # xs) = x @ sep @ join sep (y # xs)"

definition urlencode :: "pydict \<Rightarrow> string" where
  "urlencode params =
     join ''&'' (map (\<lambda>(k, v). quote_plus k @ ''='' @ quote_plus (str_pyval v)) params)"

subsection \<open>Exceptions\<close>

text \<open>
  Only subclasses of \<open>Exception\<close> are represented, so \<open>except Exception\<close> catches every
  value of type \<open>exn\<close>. \<open>str(e)\<close> is the message.
\<close>

datatype exc_class =
    ValueError
  | OverflowError
  | ZeroDivisionError
  | RequestException
  | ConnectionError
  | Timeout
  | HTTPError
  | JSONDecodeError
  | OtherException

datatype exn = Exn exc_class string

fun exn_class :: "exn \<Rightarrow> exc_class" where
  "exn_class (Exn c m) = c"

fun str_exn :: "exn \<Rightarrow> string" where
  "str_exn (Exn c m) = m"

definition is_RequestException :: "exn \<Rightarrow> bool" where
  \<comment> \<open>\<open>isinstance(e, requests.exceptions.RequestException)\<close>\<close>
  "is_RequestException e =
     (exn_class e = RequestException \<or> exn_class e = ConnectionError \<or> exn_class e = Timeout
      \<or> exn_class e = HTTPError \<or> exn_class e = JSONDecodeError)"

section \<open>The world the bot acts on\<close>

datatype log_level = INFO | ERROR

record response =
  resp_url :: string          \<comment> \<open>\<open>response.url\<close>, the URL the library finally requested\<close>
  status_code :: int
  reason :: string
  body_text :: string
  json_body :: "exn + json"   \<comment> \<open>what \<open>response.json()\<close> raises or returns\<close>

record http_request =
  req_method :: string
  req_url :: string
  req_headers :: "(string \<times> string) list"
  req_timeout :: nat

datatype printed = PrText string | PrValue json

text \<open>
  \<open>logged\<close> is what the module-level logger has received (level and formatted message; the
  traceback that \<open>logger.exception\<close> adds is left out), \<open>wire\<close> the HTTP requests handed
  to the session, \<open>naps\<close> the completed \<open>time.sleep\<close> calls, \<open>heap\<close> the dict objects
  (an address is an index), \<open>ticks\<close> the number of clock readings so far and \<open>stdout\<close>
  the \<open>print\<close> calls, one argument list each.
\<close>

record world =
  logged :: "(log_level \<times> string) list"
  wire :: "http_request list"
  naps :: "rat list"
  heap :: "pydict list"
  ticks :: nat
  stdout :: "printed list list"

text \<open>
  What the interpreter, the standard library, \<open>requests\<close> and the exchange do is a
  parameter of the model:
  \<^item> \<open>now_ms k\<close> is \<open>int(time.time() * 1000)\<close> at the \<open>k\<close>-th clock reading;
  \<open>http k r\<close> is the outcome of \<open>session.post\<close>/\<open>session.get\<close> for request \<open>r\<close> when
  \<open>k\<close> requests were issued before: an exception or a response;
  \<^item> \<open>sleep_error t\<close> is the exception \<open>time.sleep(t)\<close> raises, if any;
  \<^item> \<open>hmac_sha256_hex key msg\<close> is \<open>hmac.new(key, msg, hashlib.sha256).hexdigest()\<close>;
  \<^item> \<open>float_div x n\<close> is \<open>x / n\<close> for a float and an int (an exception when the int
  has no float), \<open>float_round x d\<close> is \<open>round(x, d)\<close> and \<open>float_str x\<close> is \<open>str(x)\<close>.
\<close>

record runtime =
  now_ms :: "nat \<Rightarrow> int"
  http :: "nat \<Rightarrow> http_request \<Rightarrow> exn + response"
  sleep_error :: "rat \<Rightarrow> exn option"
  hmac_sha256_hex :: "bytes \<Rightarrow> bytes \<Rightarrow> string"
  float_div :: "rat \<Rightarrow> int \<Rightarrow> exn + rat"
  float_round :: "rat \<Rightarrow> nat \<Rightarrow> rat"
  float_str :: "rat \<Rightarrow> string"

definition log_info :: "string \<Rightarrow> world \<Rightarrow> world" where
  "log_info msg w = w\<lparr>logged := logged w @ [(INFO, msg)]\<rparr>"

definition log_error :: "string \<Rightarrow> world \<Rightarrow> world" where
  \<comment> \<open>\<open>logger.error\<close> and \<open>logger.exception\<close> both log at level ERROR.\<close>
  "log_error msg w = w\<lparr>logged := logged w @ [(ERROR, msg)]\<rparr>"

definition alloc :: "pydict \<Rightarrow> world \<Rightarrow> nat \<times> world" where
  \<comment> \<open>A dict display \<open>{...}\<close> creates a new object.\<close>
  "alloc d w = (length (heap w), w\<lparr>heap := heap w @ [d]\<rparr>)"

definition deref :: "world \<Rightarrow> nat \<Rightarrow> pydict" where
  "deref w a = (if a < length (heap w) then heap w ! a else [])"

section \<open>BasicBot\<close>

definition DEFAULT_TESTNET_BASE :: string where
  "DEFAULT_TESTNET_BASE = ''https://testnet.binancefuture.com''"

text \<open>
  \<open>session_headers\<close> holds the headers the bot itself sets on its session; the defaults of
  \<open>requests.Session\<close> do not depend on the bot and are left out.
\<close>

record bot =
  api_key :: string
  api_secret :: bytes
  base_url :: string
  session_headers :: "(string \<times> string) list"

definition BasicBot_init :: "string \<Rightarrow> string \<Rightarrow> string \<Rightarrow> world \<Rightarrow> bot \<times> world" where
  "BasicBot_init key secret url w =
     (let self = \<lparr>api_key = key, api_secret = utf8_encode secret, base_url = rstrip CHR ''/'' url,
                   session_headers = [(''X-MBX-APIKEY'', key)]\<rparr>
      in (self, log_info (''BasicBot initialized with base_url='' @ base_url self) w))"

definition sign_payload :: "runtime \<Rightarrow> bot \<Rightarrow> pydict \<Rightarrow> string" where
  \<comment> \<open>\<open>_sign_payload\<close>\<close>
  "sign_payload rt self params =
     (let query = urlencode params;
          signature = hmac_sha256_hex rt (api_secret self) (utf8_encode query)
      in query @ ''&signature='' @ signature)"

definition params_or_new :: "nat option \<Rightarrow> world \<Rightarrow> nat \<times> world" where
  \<comment> \<open>\<open>params = params or {}\<close>: \<open>None\<close> and the empty dict are falsy, so both give a new dict.\<close>
  "params_or_new params w =
     (case params of
        None \<Rightarrow> alloc [] w
      | Some a \<Rightarrow> if deref w a = [] then alloc [] w else (a, w))"

definition set_timestamp :: "runtime \<Rightarrow> nat \<Rightarrow> world \<Rightarrow> world" where
  \<comment> \<open>\<open>params['timestamp'] = int(time.time() * 1000)\<close>\<close>
  "set_timestamp rt a w =
     w\<lparr>heap := (heap w)[a := dict_set ''timestamp'' (PInt (now_ms rt (ticks w))) (deref w a)],
       ticks := Suc (ticks w)\<rparr>"

definition raise_for_status :: "response \<Rightarrow> exn option" where
  \<comment> \<open>\<open>requests.Response.raise_for_status\<close>: \<open>HTTPError\<close> for 4xx and 5xx only.\<close>
  "raise_for_status r =
     (if 400 \<le> status_code r \<and> status_code r < 500 then
        Some (Exn HTTPError (str_int (status_code r) @ '' Client Error: '' @ reason r
                              @ '' for url: '' @ resp_url r))
      else if 500 \<le> status_code r \<and> status_code r < 600 then
        Some (Exn HTTPError (str_int (status_code r) @ '' Server Error: '' @ reason r
                              @ '' for url: '' @ resp_url r))
      else None)"

definition except_RequestException :: "exn \<Rightarrow> world \<Rightarrow> (exn + json) \<times> world" where
  \<comment> \<open>The handler of the \<open>try\<close> in \<open>_send_signed_request\<close>: a \<open>RequestException\<close> is logged
      and raised again; any other exception is not caught.\<close>
  "except_RequestException e w =
     (if is_RequestException e
      then (Inl e, log_error (''HTTP error during signed request: '' @ str_exn e) w)
      else (Inl e, w))"

definition send_signed_request ::
  "runtime \<Rightarrow> bot \<Rightarrow> string \<Rightarrow> string \<Rightarrow> nat option \<Rightarrow> world \<Rightarrow> (exn + json) \<times> world" where
  \<comment> \<open>\<open>_send_signed_request\<close>; \<open>Inl e\<close> is exception \<open>e\<close> leaving the call.\<close>
  "send_signed_request rt self method path params w =
     (let (a, w0) = params_or_new params w;
          w1 = set_timestamp rt a w0;
          signed_query = sign_payload rt self (deref w1 a);
          url = base_url self @ path;
          w2 = log_info (''REQUEST -> '' @ upper method @ '' '' @ url @ ''?'' @ signed_query) w1
      in if upper method = ''POST'' \<or> upper method = ''GET'' then
           (let req = \<lparr>req_method = upper method, req_url = url @ ''?'' @ signed_query,
                        req_headers = session_headers self, req_timeout = 10\<rparr>;
                w3 = w2\<lparr>wire := wire w2 @ [req]\<rparr>
            in case http rt (length (wire w2)) req of
                 Inl e \<Rightarrow> except_RequestException e w3
               | Inr resp \<Rightarrow>
                   (let w4 = log_info (''RESPONSE <- '' @ str_int (status_code resp) @ '' ''
                                        @ body_text resp) w3
                    in case raise_for_status resp of
                         Some e \<Rightarrow> except_RequestException e w4
                       | None \<Rightarrow>
                           (case json_body resp of
                              Inl e \<Rightarrow> except_RequestException e w4
                            | Inr v \<Rightarrow> (Inr v, w4))))
         else except_RequestException (Exn ValueError (''Unsupported HTTP method: '' @ method)) w2)"

definition place_market_order ::
  "runtime \<Rightarrow> bot \<Rightarrow> string \<Rightarrow> string \<Rightarrow> rat \<Rightarrow> bool \<Rightarrow> world \<Rightarrow> (exn + json) \<times> world" where
  "place_market_order rt self symbol side quantity reduce_only w =
     (let (params, w1) = alloc [(''symbol'', PStr (upper symbol)),
                                (''side'', PStr (upper side)),
                                (''type'', PStr ''MARKET''),
                                (''quantity'', PStr (float_str rt quantity)),
                                (''reduceOnly'', PStr (lower (str_bool reduce_only)))] w
      in send_signed_request rt self ''POST'' ''/fapi/v1/order'' (Some params) w1)"

definition place_limit_order ::
  "runtime \<Rightarrow> bot \<Rightarrow> string \<Rightarrow> string \<Rightarrow> rat \<Rightarrow> rat \<Rightarrow> string \<Rightarrow> bool \<Rightarrow> world
     \<Rightarrow> (exn + json) \<times> world" where
  "place_limit_order rt self symbol side quantity price time_in_force reduce_only w =
     (let (params, w1) = alloc [(''symbol'', PStr (upper symbol)),
                                (''side'', PStr (upper side)),
                                (''type'', PStr ''LIMIT''),
                                (''timeInForce'', PStr time_in_force),
                                (''quantity'', PStr (float_str rt quantity)),
                                (''price'', PStr (float_str rt price)),
                                (''reduceOnly'', PStr (lower (str_bool reduce_only)))] w
      in send_signed_request rt self ''POST'' ''/fapi/v1/order'' (Some params) w1)"

definition place_stop_limit ::
  "runtime \<Rightarrow> bot \<Rightarrow> string \<Rightarrow> string \<Rightarrow> rat \<Rightarrow> rat \<Rightarrow> rat \<Rightarrow> string \<Rightarrow> world
     \<Rightarrow> (exn + json) \<times> world" where
  "place_stop_limit rt self symbol side quantity stopPrice price time_in_force w =
     (let (params, w1) = alloc [(''symbol'', PStr (upper symbol)),
                                (''side'', PStr (upper side)),
                                (''type'', PStr ''STOP''),
                                (''stopPrice'', PStr (float_str rt stopPrice)),
                                (''price'', PStr (float_str rt price)),
                                (''timeInForce'', PStr time_in_force),
                                (''quantity'', PStr (float_str rt quantity))] w
      in send_signed_request rt self ''POST'' ''/fapi/v1/order'' (Some params) w1)"

subsection \<open>place\_twap\<close>

definition error_entry :: "exn \<Rightarrow> json" where
  \<comment> \<open>\<open>{'error': str(e)}\<close>\<close>
  "error_entry e = JDict [(''error'', JStr (str_exn e))]"

definition twap_slice ::
  "runtime \<Rightarrow> bot \<Rightarrow> string \<Rightarrow> string \<Rightarrow> rat \<Rightarrow> int \<Rightarrow> nat \<Rightarrow> json list \<Rightarrow> world
     \<Rightarrow> json list \<times> world" where
  \<comment> \<open>The body of the loop up to the \<open>if\<close>: the log line, the order and its \<open>try\<close>.\<close>
  "twap_slice rt self symbol side slice_qty slices i responses w =
     (let w1 = log_info (''TWAP slice '' @ str_int (int i + 1) @ ''/'' @ str_int slices
                          @ '': qty='' @ float_str rt slice_qty) w
      in case place_market_order rt self symbol side (float_round rt slice_qty 8) False w1 of
           (Inr resp, w2) \<Rightarrow> (responses @ [resp], w2)
         | (Inl e, w2) \<Rightarrow>
             (responses @ [error_entry e],
              log_error (''Error executing TWAP slice '' @ str_int (int i + 1) @ '': ''
                         @ str_exn e) w2))"

fun twap_loop ::
  "runtime \<Rightarrow> bot \<Rightarrow> string \<Rightarrow> string \<Rightarrow> rat \<Rightarrow> int \<Rightarrow> rat \<Rightarrow> nat list \<Rightarrow> json list \<Rightarrow> world
     \<Rightarrow> (exn + json list) \<times> world" where
  \<comment> \<open>\<open>for i in range(slices)\<close>, over the indices still to come.\<close>
  "twap_loop rt self symbol side slice_qty slices interval [] responses w = (Inr responses, w)"
| "twap_loop rt self symbol side slice_qty slices interval (i # rest) responses w =
     (let (responses', w1) = twap_slice rt self symbol side slice_qty slices i responses w
      in if int i < slices - 1 then
           (case sleep_error rt interval of
              Some e \<Rightarrow> (Inl e, w1)
            | None \<Rightarrow> twap_loop rt self symbol side slice_qty slices interval rest responses'
                        (w1\<lparr>naps := naps w1 @ [interval]\<rparr>))
         else twap_loop rt self symbol side slice_qty slices interval rest responses' w1)"

definition place_twap ::
  "runtime \<Rightarrow> bot \<Rightarrow> string \<Rightarrow> string \<Rightarrow> rat \<Rightarrow> int \<Rightarrow> rat \<Rightarrow> world
     \<Rightarrow> (exn + json list) \<times> world" where
  "place_twap rt self symbol side quantity slices interval w =
     (if slices \<le> 0 then (Inl (Exn ValueError ''slices must be >= 1''), w)
      else case float_div rt quantity slices of
             Inl e \<Rightarrow> (Inl e, w)
           | Inr slice_qty \<Rightarrow>
               (let w1 = log_info (''Starting TWAP: '' @ side @ '' '' @ symbol @ '' total_qty=''
                                    @ float_str rt quantity @ '' slices='' @ str_int slices
                                    @ '' interval='' @ float_str rt interval) w
                in twap_loop rt self symbol side slice_qty slices interval [0..<nat slices] [] w1))"

section \<open>The command line\<close>

text \<open>
  \<open>args\<close> is the namespace \<open>parse_args\<close> returns: \<open>argparse\<close> has already restricted
  \<open>--side\<close> and \<open>--type\<close> to their choices and converted the numbers.
\<close>

record args =
  arg_api_key :: "string option"
  arg_api_secret :: "string option"
  arg_base_url :: string
  arg_symbol :: string
  arg_side :: string
  arg_type :: string
  arg_quantity :: rat
  arg_price :: "rat option"
  arg_stop_price :: "rat option"
  arg_time_in_force :: string
  arg_twap_slices :: int
  arg_twap_interval :: rat

definition falsy :: "string option \<Rightarrow> bool" where
  \<comment> \<open>\<open>not x\<close> for a string or \<open>None\<close>\<close>
  "falsy x = (x = None \<or> x = Some [])"

definition validate_args :: "args \<Rightarrow> string option" where
  \<comment> \<open>\<open>Some msg\<close> is \<open>raise SystemExit(msg)\<close>; \<open>None\<close> is a normal return.\<close>
  "validate_args a =
     (if falsy (arg_api_key a) \<or> falsy (arg_api_secret a) then
        Some ''API key and secret are required. Set via --api-key/--api-secret or environment variables.''
      else if arg_type a = ''LIMIT'' \<and> arg_price a = None then
        Some ''LIMIT orders require --price''
      else if arg_type a = ''STOP'' \<and> (arg_stop_price a = None \<or> arg_price a = None) then
        Some ''STOP orders require both --stop-price and --price''
      else if arg_quantity a \<le> 0 then
        Some ''quantity must be positive''
      else None)"

definition print_line :: "printed list \<Rightarrow> world \<Rightarrow> world" where
  "print_line xs w = w\<lparr>stdout := stdout w @ [xs]\<rparr>"

definition except_Exception :: "exn \<Rightarrow> world \<Rightarrow> world" where
  \<comment> \<open>The handler of the \<open>try\<close> in \<open>main\<close>.\<close>
  "except_Exception e w =
     print_line [PrText ''Execution failed:'', PrText (str_exn e)]
       (log_error (''Error executing order: '' @ str_exn e) w)"

definition print_response :: "(exn + json) \<times> world \<Rightarrow> world" where
  "print_response rw =
     (case rw of
        (Inr resp, w) \<Rightarrow> print_line [PrText ''Order response:'', PrValue resp] w
      | (Inl e, w) \<Rightarrow> except_Exception e w)"

definition print_twap :: "(exn + json list) \<times> world \<Rightarrow> world" where
  "print_twap rw =
     (case rw of
        (Inr resp, w) \<Rightarrow> foldl (\<lambda>w' r. print_line [PrValue r] w')
                           (print_line [PrText ''TWAP responses:''] w) resp
      | (Inl e, w) \<Rightarrow> except_Exception e w)"

definition main :: "runtime \<Rightarrow> args \<Rightarrow> world \<Rightarrow> string option \<times> world" where
  \<comment> \<open>The result is the \<open>SystemExit\<close> leaving \<open>main\<close>, if any. The \<open>None\<close> cases of the
      credentials and prices are excluded by \<open>validate_args\<close>; they leave the world as it is.\<close>
  "main rt a w =
     (case validate_args a of
        Some msg \<Rightarrow> (Some msg, log_error (''Argument validation failed: '' @ msg) w)
      | None \<Rightarrow>
          (case (arg_api_key a, arg_api_secret a) of
             (Some key, Some secret) \<Rightarrow>
               (let (bot, w1) = BasicBot_init key secret (arg_base_url a) w;
                    side = upper (arg_side a)
                in if arg_type a = ''MARKET'' then
                     (None, print_response
                              (place_market_order rt bot (arg_symbol a) side (arg_quantity a) False w1))
                   else if arg_type a = ''LIMIT'' then
                     (case arg_price a of
                        Some price \<Rightarrow>
                          (None, print_response
                                   (place_limit_order rt bot (arg_symbol a) side (arg_quantity a) price
                                      (arg_time_in_force a) False w1))
                      | None \<Rightarrow> (None, w1))
                   else if arg_type a = ''STOP'' then
                     (case (arg_stop_price a, arg_price a) of
                        (Some stop_price, Some price) \<Rightarrow>
                          (None, print_response
                                   (place_stop_limit rt bot (arg_symbol a) side (arg_quantity a)
                                      stop_price price (arg_time_in_force a) w1))
                      | _ \<Rightarrow> (None, w1))
                   else if arg_type a = ''TWAP'' then
                     (None, print_twap
                              (place_twap rt bot (arg_symbol a) side (arg_quantity a)
                                 (arg_twap_slices a) (arg_twap_interval a) w1))
                   else (None, log_error (''Unsupported order type: '' @ arg_type a) w1))
           | _ \<Rightarrow> (None, w)))"

section \<open>What one HTTP exchange yields\<close>

definition exchange_outcome :: "runtime \<Rightarrow> nat \<Rightarrow> http_request \<Rightarrow> exn + json" where
  \<comment> \<open>The outcome of the \<open>try\<close> block for request \<open>r\<close>, sent when \<open>k\<close> requests were sent
      before: the transport's exception, the \<open>HTTPError\<close> of a 4xx/5xx status, the exception
      of \<open>response.json()\<close>, or the decoded body.\<close>
  "exchange_outcome rt k r =
     (case http rt k r of
        Inl e \<Rightarrow> Inl e
      | Inr resp \<Rightarrow>
          (case raise_for_status resp of
             Some e \<Rightarrow> Inl e
           | None \<Rightarrow> json_body resp))"

definition entry_of :: "exn + json \<Rightarrow> json" where
  \<comment> \<open>What \<open>place_twap\<close> appends for the outcome of one slice.\<close>
  "entry_of r = (case r of Inl e \<Rightarrow> error_entry e | Inr v \<Rightarrow> v)"

definition signed_params :: "runtime \<Rightarrow> nat option \<Rightarrow> world \<Rightarrow> pydict" where
  \<comment> \<open>The dict \<open>_send_signed_request\<close> signs: the caller's (or a new one) with the timestamp set.\<close>
  "signed_params rt params w =
     dict_set ''timestamp'' (PInt (now_ms rt (ticks w)))
       (case params of None \<Rightarrow> [] | Some a \<Rightarrow> deref w a)"

definition request_of ::
  "runtime \<Rightarrow> bot \<Rightarrow> string \<Rightarrow> string \<Rightarrow> nat option \<Rightarrow> world \<Rightarrow> http_request" where
  \<comment> \<open>The request \<open>_send_signed_request\<close> hands to the session.\<close>
  "request_of rt self method path params w =
     \<lparr>req_method = upper method,
      req_url = base_url self @ path @ ''?'' @ sign_payload rt self (signed_params rt params w),
      req_headers = session_headers self, req_timeout = 10\<rparr>"

fun slice_entries :: "runtime \<Rightarrow> nat \<Rightarrow> http_request list \<Rightarrow> json list" where
  \<comment> \<open>The log entries of consecutive requests, the first sent when \<open>k\<close> were sent before.\<close>
  "slice_entries rt k [] = []"
| "slice_entries rt k (r # rs) = entry_of (exchange_outcome rt k r) # slice_entries rt (Suc k) rs"

section \<open>Binary floating point\<close>

text \<open>
  The double nearest to a rational, ties to the even significand, with the gradual
  underflow of IEEE 754; the result is not clamped at the largest double. \<open>binade x\<close> is
  the exponent \<open>e\<close> with \<open>2 ^ e \<le> \<bar>x\<bar> < 2 ^ (e + 1)\<close>.
\<close>

definition pow2 :: "int \<Rightarrow> rat" where
  "pow2 k = (if 0 \<le> k then 2 ^ nat k else 1 / 2 ^ nat (- k))"

fun bit_length :: "nat \<Rightarrow> nat" where
  \<comment> \<open>The number of binary digits of \<open>n\<close>.\<close>
  "bit_length n = (if n = 0 then 0 else Suc (bit_length (n div 2)))"

declare bit_length.simps [simp del]

definition binade :: "rat \<Rightarrow> int" where
  "binade x =
     (if 1 \<le> \<bar>x\<bar> then int (bit_length (nat \<lfloor>\<bar>x\<bar>\<rfloor>)) - 1
      else - int (bit_length (nat (\<lceil>1 / \<bar>x\<bar>\<rceil> - 1))))"

definition round_half_even :: "rat \<Rightarrow> int" where
  "round_half_even y =
     (let f = \<lfloor>y\<rfloor>; r = y - of_int f
      in if r < 1 / 2 then f else if 1 / 2 < r then f + 1 else if even f then f else f + 1)"

definition binary64 :: "rat \<Rightarrow> rat" where
  "binary64 x =
     (if x = 0 then 0
      else let k = max (binade x) (- 1022) - 52
           in of_int (round_half_even (x / pow2 k)) * pow2 k)"

definition int_to_float :: "int \<Rightarrow> exn + rat" where
  \<comment> \<open>An int from \<open>2 ^ 1024 - 2 ^ 970\<close> on rounds to \<open>2 ^ 1024\<close>, which is no double.\<close>
  "int_to_float n =
     (if 2 ^ 1024 - 2 ^ 970 \<le> \<bar>n\<bar> then Inl (Exn OverflowError ''int too large to convert to float'')
      else Inr (binary64 (of_int n)))"

definition binary64_div :: "rat \<Rightarrow> int \<Rightarrow> exn + rat" where
  \<comment> \<open>\<open>x / n\<close> for a float \<open>x\<close> and an int \<open>n\<close>: the int is converted, then the doubles are
      divided.\<close>
  "binary64_div x n =
     (case int_to_float n of
        Inl e \<Rightarrow> Inl e
      | Inr y \<Rightarrow> if y = 0 then Inl (Exn ZeroDivisionError ''float division by zero'')
                 else Inr (binary64 (x / y)))"

definition binary64_round :: "rat \<Rightarrow> nat \<Rightarrow> rat" where
  \<comment> \<open>\<open>round(x, d)\<close>: the decimal with \<open>d\<close> places nearest to \<open>x\<close> (ties to even), converted
      to the nearest double.\<close>
  "binary64_round x d = binary64 (of_int (round_half_even (x * 10 ^ d)) / 10 ^ d)"

definition binary64_accurate :: "rat \<Rightarrow> rat \<Rightarrow> bool" where
  \<comment> \<open>\<open>y\<close> is \<open>x\<close> correctly rounded: within half a unit in the 53rd significant bit, or
      within half the spacing of the subnormal doubles.\<close>
  "binary64_accurate x y = (\<bar>y - x\<bar> \<le> max (\<bar>x\<bar> / 2 ^ 53) (1 / 2 ^ 1075))"

definition cpython_sleep_error :: "rat \<Rightarrow> exn option" where
  \<comment> \<open>\<open>time.sleep(t)\<close> in CPython 3.11: the seconds become a signed 64-bit count of
      nanoseconds, which overflows beyond \<open>2 ^ 63\<close>; a negative count is rejected.\<close>
  "cpython_sleep_error t =
     (if 2 ^ 63 < \<bar>t\<bar> * 10 ^ 9 then
        Some (Exn OverflowError ''timestamp out of range for platform time_t'')
      else if t < 0 then Some (Exn ValueError ''sleep length must be non-negative'')
      else None)"

section \<open>Runtimes for the examples\<close>

text \<open>
  The examples run against \<open>example_rt\<close>. The clock stands still, \<open>time.sleep\<close> behaves as
  in CPython, the exchange answers 200 with an empty JSON object, except for the second
  request (index 1), which fails to connect, and the fourth, which is rejected with status
  400. The float operations are exact, which is what binary floats give on the whole
  numbers these examples use, and \<open>example_float_str\<close> prints whole numbers as Python does
  (\<open>1.0\<close>). \<open>example_digest\<close> stands in for HMAC-SHA256: like HMAC it does not tell a key
  from the same key followed by zero bytes. \<open>offline_rt\<close> is the same with the exchange
  unreachable, and \<open>binary64_rt\<close> the same with the division and \<open>round\<close> of binary floats.
\<close>

definition example_float_str :: "rat \<Rightarrow> string" where
  "example_float_str x = str_int \<lfloor>x\<rfloor> @ ''.0''"

definition example_digest :: "bytes \<Rightarrow> bytes \<Rightarrow> string" where
  "example_digest key msg = str_nat (sum_list key * 31 + sum_list msg)"

definition example_http :: "nat \<Rightarrow> http_request \<Rightarrow> exn + response" where
  "example_http k r =
     (if k = 1 then Inl (Exn ConnectionError ''Connection refused'')
      else if k = 3 then
        Inr \<lparr>resp_url = req_url r, status_code = 400, reason = ''Bad Request'', body_text = ''{}'',
             json_body = Inr (JDict [])\<rparr>
      else Inr \<lparr>resp_url = req_url r, status_code = 200, reason = ''OK'', body_text = ''{}'',
                json_body = Inr (JDict [])\<rparr>)"

definition example_rt :: runtime where
  "example_rt =
     \<lparr>now_ms = (\<lambda>k. 1700000000000),
      http = example_http,
      sleep_error = cpython_sleep_error,
      hmac_sha256_hex = example_digest,
      float_div = (\<lambda>x n. Inr (x / of_int n)),
      float_round = (\<lambda>x d. x),
      float_str = example_float_str\<rparr>"

definition offline_rt :: runtime where
  "offline_rt = example_rt\<lparr>http := (\<lambda>k r. Inl (Exn ConnectionError ''Connection refused''))\<rparr>"

definition binary64_rt :: runtime where
  "binary64_rt = example_rt\<lparr>float_div := binary64_div, float_round := binary64_round\<rparr>"

definition example_bot :: bot where
  "example_bot = fst (BasicBot_init ''key'' ''s3cret'' DEFAULT_TESTNET_BASE
                        \<lparr>logged = [], wire = [], naps = [], heap = [], ticks = 0, stdout = []\<rparr>)"

definition empty_world :: world where
  "empty_world = \<lparr>logged = [], wire = [], naps = [], heap = [], ticks = 0, stdout = []\<rparr>"

definition example_args :: args where
  \<comment> \<open>\<open>--symbol btcusdt --side buy --type MARKET --quantity 0\<close> with credentials set.\<close>
  "example_args =
     \<lparr>arg_api_key = Some ''key'', arg_api_secret = Some ''s3cret'',
      arg_base_url = DEFAULT_TESTNET_BASE, arg_symbol = ''btcusdt'', arg_side = ''buy'',
      arg_type = ''MARKET'', arg_quantity = 0, arg_price = None, arg_stop_price = None,
      arg_time_in_force = ''GTC'', arg_twap_slices = 5, arg_twap_interval = 1\<rparr>"

section \<open>Properties\<close>

subsection \<open>The request that the send operation builds\<close>

lemma str_nat_digit: "n < 10 \<Longrightarrow> str_nat n = [digit_char n]"
  by (simp add: str_nat.simps [of n])

lemma str_nat_more: "10 \<le> n \<Longrightarrow> str_nat n = str_nat (n div 10) @ [digit_char (n mod 10)]"
  by (simp add: str_nat.simps [of n])

lemma params_or_new_frame:
  "params_or_new params w = (a, w0) \<Longrightarrow>
     wire w0 = wire w \<and> logged w0 = logged w \<and> ticks w0 = ticks w \<and> naps w0 = naps w
     \<and> stdout w0 = stdout w"
  by (auto simp: params_or_new_def alloc_def split: option.splits if_splits)

lemma params_or_new_deref:
  "params_or_new params w = (a, w0) \<Longrightarrow>
     a < length (heap w0) \<and> deref w0 a = (case params of None \<Rightarrow> [] | Some b \<Rightarrow> deref w b)"
  by (auto simp: params_or_new_def alloc_def deref_def split: option.splits if_splits)

lemma set_timestamp_deref:
  "a < length (heap w) \<Longrightarrow>
     deref (set_timestamp rt a w) a = dict_set ''timestamp'' (PInt (now_ms rt (ticks w))) (deref w a)"
  by (simp add: set_timestamp_def deref_def)

lemma signed_dict:
  "params_or_new params w = (a, w0) \<Longrightarrow> deref (set_timestamp rt a w0) a = signed_params rt params w"
  using params_or_new_deref [of params w a w0] params_or_new_frame [of params w a w0]
  by (simp add: set_timestamp_deref signed_params_def)

lemma set_timestamp_frame:
  "wire (set_timestamp rt a w) = wire w \<and> logged (set_timestamp rt a w) = logged w
   \<and> naps (set_timestamp rt a w) = naps w \<and> stdout (set_timestamp rt a w) = stdout w"
  by (simp add: set_timestamp_def)

lemma except_RequestException_fst: "fst (except_RequestException e w) = Inl e"
  by (simp add: except_RequestException_def)

lemma except_RequestException_wire: "wire (snd (except_RequestException e w)) = wire w"
  by (simp add: except_RequestException_def log_error_def)

lemma send_result:
  assumes "upper method = ''POST'' \<or> upper method = ''GET''"
  shows "fst (send_signed_request rt self method path params w)
           = exchange_outcome rt (length (wire w)) (request_of rt self method path params w)"
proof -
  obtain a w0 where p: "params_or_new params w = (a, w0)" by (cases "params_or_new params w")
  note f = params_or_new_frame [OF p] and d = signed_dict [OF p, of rt]
  show ?thesis using assms
    by (auto simp: send_signed_request_def p d f Let_def exchange_outcome_def request_of_def
        log_info_def set_timestamp_frame except_RequestException_fst
        split: sum.splits option.splits)
qed

lemma send_wire:
  assumes "upper method = ''POST'' \<or> upper method = ''GET''"
  shows "wire (snd (send_signed_request rt self method path params w))
           = wire w @ [request_of rt self method path params w]"
proof -
  obtain a w0 where p: "params_or_new params w = (a, w0)" by (cases "params_or_new params w")
  note f = params_or_new_frame [OF p] and d = signed_dict [OF p, of rt]
  show ?thesis using assms
    by (auto simp: send_signed_request_def p d f Let_def request_of_def
        log_info_def set_timestamp_frame except_RequestException_wire
        split: sum.splits option.splits)
qed


subsection \<open>The slices of place\_twap\<close>

lemma upper_POST: "upper ''POST'' = ''POST''"
  by (simp add: upper_def upper_char_def latin1_lower_def latin1_upper_def)

lemma alloc_frame:
  "wire (snd (alloc d w)) = wire w \<and> logged (snd (alloc d w)) = logged w
   \<and> fst (alloc d w) = length (heap w)"
  by (simp add: alloc_def)

lemma place_market_order_outcome:
  "\<exists>req. fst (place_market_order rt self symbol side q ro w)
             = exchange_outcome rt (length (wire w)) req
         \<and> wire (snd (place_market_order rt self symbol side q ro w)) = wire w @ [req]"
proof -
  have P: "upper ''POST'' = ''POST'' \<or> upper ''POST'' = ''GET''" by (simp add: upper_POST)
  show ?thesis
    unfolding place_market_order_def Let_def split_beta
    using send_result [OF P] send_wire [OF P] by (simp add: alloc_frame)
qed

lemma twap_slice_outcome:
  "\<exists>req. fst (twap_slice rt self symbol side sq slices i responses w)
             = responses @ [entry_of (exchange_outcome rt (length (wire w)) req)]
         \<and> wire (snd (twap_slice rt self symbol side sq slices i responses w)) = wire w @ [req]"
proof -
  have key: "\<exists>req. res = exchange_outcome rt (length (wire w)) req \<and> wire w2 = wire w @ [req]"
    if "place_market_order rt self symbol side (float_round rt sq 8) False (log_info msg w) = (res, w2)"
    for msg res w2
    using place_market_order_outcome
            [of rt self symbol side "float_round rt sq 8" False "log_info msg w"] that
    by (simp add: log_info_def)
  obtain res w2 where pm:
    "place_market_order rt self symbol side (float_round rt sq 8) False
       (log_info (''TWAP slice '' @ str_int (int i + 1) @ ''/'' @ str_int slices
                          @ '': qty='' @ float_str rt sq) w) = (res, w2)"
    by (meson surj_pair)
  from key [OF pm] obtain req where
    "res = exchange_outcome rt (length (wire w)) req" "wire w2 = wire w @ [req]" by blast
  then show ?thesis
    unfolding twap_slice_def Let_def pm
    by (intro exI [of _ req]) (simp add: entry_of_def log_error_def split: sum.splits)
qed

lemma twap_loop_complete:
  assumes "\<forall>i\<in>set idx. int i < slices - 1 \<longrightarrow> sleep_error rt interval = None"
  shows "\<exists>new w'. twap_loop rt self symbol side sq slices interval idx responses w
                     = (Inr (responses @ slice_entries rt (length (wire w)) new), w')
                 \<and> wire w' = wire w @ new \<and> length new = length idx"
  using assms
proof (induction idx arbitrary: responses w)
  case Nil
  show ?case by (rule exI [of _ "[]"]) simp
next
  case (Cons i rest)
  obtain req where
    r: "fst (twap_slice rt self symbol side sq slices i responses w)
          = responses @ [entry_of (exchange_outcome rt (length (wire w)) req)]"
    and x: "wire (snd (twap_slice rt self symbol side sq slices i responses w)) = wire w @ [req]"
    using twap_slice_outcome by blast
  obtain rs1 w1 where ts: "twap_slice rt self symbol side sq slices i responses w = (rs1, w1)"
    by (cases "twap_slice rt self symbol side sq slices i responses w")
  from r x ts have rs1: "rs1 = responses @ [entry_of (exchange_outcome rt (length (wire w)) req)]"
    and w1: "wire w1 = wire w @ [req]" by simp_all
  define w2 where "w2 = (if int i < slices - 1 then w1\<lparr>naps := naps w1 @ [interval]\<rparr> else w1)"
  have w2: "wire w2 = wire w @ [req]" using w1 by (simp add: w2_def)
  from Cons.prems have rest: "\<forall>i\<in>set rest. int i < slices - 1 \<longrightarrow> sleep_error rt interval = None"
    by simp
  from Cons.IH [OF rest, of rs1 w2] obtain new w' where
    ih: "twap_loop rt self symbol side sq slices interval rest rs1 w2
           = (Inr (rs1 @ slice_entries rt (length (wire w2)) new), w')"
    and ihw: "wire w' = wire w2 @ new" and ihl: "length new = length rest"
    by blast
  have step: "twap_loop rt self symbol side sq slices interval (i # rest) responses w
                = twap_loop rt self symbol side sq slices interval rest rs1 w2"
    using Cons.prems by (simp add: ts w2_def)
  have "twap_loop rt self symbol side sq slices interval (i # rest) responses w
          = (Inr (responses @ slice_entries rt (length (wire w)) (req # new)), w')"
    unfolding step ih by (simp add: rs1 w2)
  moreover have "wire w' = wire w @ (req # new)" using ihw w2 by simp
  moreover have "length (req # new) = length (i # rest)" using ihl by simp
  ultimately show ?case by blast
qed

lemma slice_entries_length: "length (slice_entries rt k rs) = length rs"
  by (induction rs arbitrary: k) simp_all

lemma slice_entries_nth:
  "j < length rs \<Longrightarrow> slice_entries rt k rs ! j = entry_of (exchange_outcome rt (k + j) (rs ! j))"
proof (induction rs arbitrary: k j)
  case Nil
  then show ?case by simp
next
  case (Cons r rs)
  then show ?case by (cases j) simp_all
qed

lemma place_twap_complete:
  assumes N: "1 \<le> slices"
    and div: "float_div rt quantity slices = Inr sq"
    and sl: "1 < slices \<longrightarrow> sleep_error rt interval = None"
  shows "\<exists>new w'. place_twap rt self symbol side quantity slices interval w
                     = (Inr (slice_entries rt (length (wire w)) new), w')
                 \<and> wire w' = wire w @ new \<and> length new = nat slices"
proof -
  let ?w1 = "log_info (''Starting TWAP: '' @ side @ '' '' @ symbol @ '' total_qty=''
                                    @ float_str rt quantity @ '' slices='' @ str_int slices
                                    @ '' interval='' @ float_str rt interval) w"
  have w1: "wire ?w1 = wire w" by (simp add: log_info_def)
  have idx: "\<forall>i\<in>set [0..<nat slices]. int i < slices - 1 \<longrightarrow> sleep_error rt interval = None"
    using sl by auto
  from twap_loop_complete [OF idx, of self symbol side sq "[]" ?w1] obtain new w' where
    "twap_loop rt self symbol side sq slices interval [0..<nat slices] [] ?w1
       = (Inr ([] @ slice_entries rt (length (wire ?w1)) new), w')"
    "wire w' = wire ?w1 @ new" "length new = length [0..<nat slices]"
    by blast
  then show ?thesis using N div w1
    by (intro exI [of _ new] exI [of _ w']) (simp add: place_twap_def)
qed


lemma entry_of_cases:
  "entry_of r = (case r of Inl e \<Rightarrow> JDict [(''error'', JStr (str_exn e))] | Inr v \<Rightarrow> v)"
  by (simp add: entry_of_def error_entry_def split: sum.splits)


lemma example_outcome_0: "exchange_outcome example_rt 0 r = Inr (JDict [])"
  by (simp add: exchange_outcome_def example_rt_def example_http_def raise_for_status_def)

lemma example_outcome_1:
  "exchange_outcome example_rt (Suc 0) r = Inl (Exn ConnectionError ''Connection refused'')"
  by (simp add: exchange_outcome_def example_rt_def example_http_def)

text \<open>
  Claim C3, as the code has it. For every total quantity, every slice count \<open>N \<ge> 1\<close> and
  every interval such that the division \<open>float(quantity) / slices\<close> does not raise and,
  when \<open>N > 1\<close>, \<open>time.sleep(interval)\<close> does not raise, \<open>place_twap\<close> returns a list of
  exactly \<open>N\<close> entries and sends exactly \<open>N\<close> requests; entry \<open>j\<close> is the decoded response of
  the \<open>j\<close>-th request or the dict \<open>{'error': str(e)}\<close> of the exception its exchange ended
  in, whatever the outcomes of the slices are.
\<close>

theorem place_twap_log_length:
  assumes "1 \<le> slices"
    and "float_div rt quantity slices = Inr slice_qty"
    and "1 < slices \<longrightarrow> sleep_error rt interval = None"
  shows "\<exists>responses w'.
           place_twap rt self symbol side quantity slices interval w = (Inr responses, w')
         \<and> length responses = nat slices
         \<and> length (wire w') = length (wire w) + nat slices
         \<and> (\<forall>j<nat slices.
               responses ! j
                 = (case exchange_outcome rt (length (wire w) + j) (wire w' ! (length (wire w) + j)) of
                      Inl e \<Rightarrow> JDict [(''error'', JStr (str_exn e))]
                    | Inr v \<Rightarrow> v))"
proof -
  from place_twap_complete [OF assms, of self symbol side w] obtain new w' where
    run: "place_twap rt self symbol side quantity slices interval w
            = (Inr (slice_entries rt (length (wire w)) new), w')"
    and sent: "wire w' = wire w @ new" and n: "length new = nat slices"
    by blast
  have "slice_entries rt (length (wire w)) new ! j
          = (case exchange_outcome rt (length (wire w) + j) (wire w' ! (length (wire w) + j)) of
               Inl e \<Rightarrow> JDict [(''error'', JStr (str_exn e))]
             | Inr v \<Rightarrow> v)"
    if "j < nat slices" for j
    using that n by (simp add: slice_entries_nth sent entry_of_cases)
  with run sent n show ?thesis by (simp add: slice_entries_length)
qed

theorem place_twap_log_length_witness:
  "(1::int) \<le> 2 \<and> float_div example_rt 2 2 = Inr 1 \<and> sleep_error example_rt 1 = None
   \<and> (\<exists>w'. place_twap example_rt example_bot ''BTCUSDT'' ''BUY'' 2 2 1 empty_world
              = (Inr [JDict [], JDict [(''error'', JStr ''Connection refused'')]], w')
            \<and> length (wire w') = 2)"
proof -
  have a: "(1::int) \<le> 2" by simp
  have b: "float_div example_rt 2 2 = Inr 1" by (simp add: example_rt_def)
  have c: "sleep_error example_rt 1 = None" by (simp add: example_rt_def cpython_sleep_error_def)
  from place_twap_log_length [OF a b, of 1 example_bot "''BTCUSDT''" "''BUY''" empty_world] c
  obtain responses w' where
    run: "place_twap example_rt example_bot ''BTCUSDT'' ''BUY'' 2 2 1 empty_world = (Inr responses, w')"
    and len: "length responses = 2" "length (wire w') = 2"
    and nth: "\<forall>j<2. responses ! j
                 = (case exchange_outcome example_rt j (wire w' ! j) of
                      Inl e \<Rightarrow> JDict [(''error'', JStr (str_exn e))]
                    | Inr v \<Rightarrow> v)"
    by (auto simp: empty_world_def)
  from nth have "responses ! 0 = JDict []" "responses ! 1 = JDict [(''error'', JStr ''Connection refused'')]"
    by (simp_all add: example_outcome_0 example_outcome_1)
  with len have "responses = [JDict [], JDict [(''error'', JStr ''Connection refused'')]]"
    by (cases responses; cases "tl responses") auto
  with run len a b c show ?thesis by blast
qed


text \<open>
  Claim C3 does not hold for every interval and every slice count. \<open>time.sleep\<close> is called
  outside the \<open>try\<close>: with two slices and an interval of \<open>1e10\<close> seconds its \<open>OverflowError\<close>
  leaves \<open>place_twap\<close> after the first slice and no list is returned. The division comes
  before the loop: with \<open>2 ^ 1024\<close> slices the int has no float, and the \<open>OverflowError\<close> of
  the division leaves \<open>place_twap\<close> before any slice.
\<close>

theorem place_twap_sleep_or_division_raises:
  "fst (place_twap example_rt example_bot ''BTCUSDT'' ''BUY'' 2 2 10000000000 empty_world)
     = Inl (Exn OverflowError ''timestamp out of range for platform time_t'')
   \<and> fst (place_twap binary64_rt example_bot ''BTCUSDT'' ''BUY'' 2 (2 ^ 1024) 1 empty_world)
       = Inl (Exn OverflowError ''int too large to convert to float'')"
proof -
  have "fst (place_twap example_rt example_bot ''BTCUSDT'' ''BUY'' 2 2 10000000000 empty_world)
     = Inl (Exn OverflowError ''timestamp out of range for platform time_t'')"
    by (simp add: place_twap_def example_rt_def cpython_sleep_error_def Let_def split_beta upt_rec)
  moreover
  have "fst (place_twap binary64_rt example_bot ''BTCUSDT'' ''BUY'' 2 (2 ^ 1024) 1 empty_world)
       = Inl (Exn OverflowError ''int too large to convert to float'')"
    by (simp add: place_twap_def binary64_rt_def example_rt_def binary64_div_def int_to_float_def)
  ultimately show ?thesis by simp
qed




text \<open>
  Claim C6. With a slice count below 1, \<open>place_twap\<close> raises
  \<open>ValueError('slices must be >= 1')\<close> (the code's invalid-parameter error) and the world is
  unchanged: nothing was logged, no dict was built and no request was handed to the session.
\<close>

theorem place_twap_rejects_slices_below_one:
  assumes "slices < 1"
  shows "place_twap rt self symbol side quantity slices interval w
           = (Inl (Exn ValueError ''slices must be >= 1''), w)"
  using assms by (simp add: place_twap_def)

theorem place_twap_rejects_slices_below_one_witness:
  "(0::int) < 1 \<and> place_twap example_rt example_bot ''BTCUSDT'' ''BUY'' 1 0 1 empty_world
           = (Inl (Exn ValueError ''slices must be >= 1''), empty_world)
   \<and> wire (snd (place_twap example_rt example_bot ''BTCUSDT'' ''BUY'' 1 0 1 empty_world)) = []"
  using place_twap_rejects_slices_below_one
          [of 0 example_rt example_bot "''BTCUSDT''" "''BUY''" 1 1 empty_world]
  by (simp add: empty_world_def)

subsection \<open>Failures of the send operation\<close>

lemma send_heap:
  "params_or_new params w = (a, w0) \<Longrightarrow>
     heap (snd (send_signed_request rt self method path params w)) = heap (set_timestamp rt a w0)"
  by (auto simp: send_signed_request_def Let_def log_info_def log_error_def
      except_RequestException_def split: sum.splits option.splits)

lemma send_logged:
  "\<exists>more. logged (snd (send_signed_request rt self method path params w))
            = logged w @ (INFO, ''REQUEST -> '' @ upper method @ '' '' @ base_url self @ path @ ''?''
                                @ sign_payload rt self (signed_params rt params w)) # more"
proof -
  obtain a w0 where p: "params_or_new params w = (a, w0)" by (cases "params_or_new params w")
  note f = params_or_new_frame [OF p] and d = signed_dict [OF p, of rt]
  show ?thesis
    by (auto simp: send_signed_request_def p d f Let_def log_info_def log_error_def
        set_timestamp_frame except_RequestException_def
        split: sum.splits option.splits)
qed

lemma send_raises_logged:
  assumes "upper method = ''POST'' \<or> upper method = ''GET''"
    and "exchange_outcome rt (length (wire w)) (request_of rt self method path params w) = Inl e"
    and "is_RequestException e"
  shows "last (logged (snd (send_signed_request rt self method path params w)))
           = (ERROR, ''HTTP error during signed request: '' @ str_exn e)"
proof -
  obtain a w0 where p: "params_or_new params w = (a, w0)" by (cases "params_or_new params w")
  note f = params_or_new_frame [OF p] and d = signed_dict [OF p, of rt]
  show ?thesis using assms
    by (auto simp: send_signed_request_def p d f Let_def exchange_outcome_def request_of_def
        log_info_def log_error_def set_timestamp_frame except_RequestException_def
        split: sum.splits option.splits)
qed

text \<open>
  Claim C1, as the code has it. When the HTTP exchange of \<open>_send_signed_request\<close> (method POST
  or GET) ends in a transport failure, in a 4xx or 5xx status, or in a body that
  \<open>response.json()\<close> cannot decode, the call does not return: the exception itself (for a
  4xx/5xx status the \<open>HTTPError\<close> whose message starts with the status code) leaves the call
  towards the caller, and when it is a \<open>RequestException\<close> the last thing logged is the
  line \<open>HTTP error during signed request\<close>. No result value carrying an error kind is
  returned.
\<close>

theorem send_signed_request_raises_failure:
  assumes "upper method = ''POST'' \<or> upper method = ''GET''"
  shows "(\<forall>e. http rt (length (wire w)) (request_of rt self method path params w) = Inl e
            \<longrightarrow> fst (send_signed_request rt self method path params w) = Inl e)
       \<and> (\<forall>resp. http rt (length (wire w)) (request_of rt self method path params w) = Inr resp
                 \<and> 400 \<le> status_code resp \<and> status_code resp < 600
            \<longrightarrow> (\<exists>m. fst (send_signed_request rt self method path params w)
                        = Inl (Exn HTTPError (str_int (status_code resp) @ m))))
       \<and> (\<forall>resp e. http rt (length (wire w)) (request_of rt self method path params w) = Inr resp
                 \<and> \<not> (400 \<le> status_code resp \<and> status_code resp < 600)
                 \<and> json_body resp = Inl e
            \<longrightarrow> fst (send_signed_request rt self method path params w) = Inl e)
       \<and> (\<forall>e. exchange_outcome rt (length (wire w)) (request_of rt self method path params w) = Inl e
                 \<and> is_RequestException e
            \<longrightarrow> last (logged (snd (send_signed_request rt self method path params w)))
                   = (ERROR, ''HTTP error during signed request: '' @ str_exn e))"
  using send_raises_logged [OF assms]
  by (auto simp: send_result [OF assms] exchange_outcome_def raise_for_status_def)

lemma upper_POST_or_GET: "upper ''POST'' = ''POST'' \<or> upper ''POST'' = ''GET''"
  by (simp add: upper_POST)

text \<open>
  Claim C1 fails on the code: with the exchange unreachable, the \<open>ConnectionError\<close> of the
  transport leaves \<open>_send_signed_request\<close> as an exception instead of being returned as a
  result value.
\<close>

theorem send_signed_request_transport_failure_raised:
  "fst (send_signed_request offline_rt example_bot ''POST'' ''/fapi/v1/order'' None empty_world)
     = Inl (Exn ConnectionError ''Connection refused'')"
  by (simp add: send_result [OF upper_POST_or_GET] exchange_outcome_def offline_rt_def)

theorem send_signed_request_raises_failure_witness:
  "upper ''POST'' = ''POST''
   \<and> http offline_rt 0 (request_of offline_rt example_bot ''POST'' ''/fapi/v1/order'' None empty_world)
       = Inl (Exn ConnectionError ''Connection refused'')
   \<and> is_RequestException (Exn ConnectionError ''Connection refused'')
   \<and> fst (send_signed_request offline_rt example_bot ''POST'' ''/fapi/v1/order'' None empty_world)
       = Inl (Exn ConnectionError ''Connection refused'')
   \<and> last (logged (snd (send_signed_request offline_rt example_bot ''POST'' ''/fapi/v1/order'' None
                          empty_world)))
       = (ERROR, ''HTTP error during signed request: Connection refused'')"
proof -
  have h: "http offline_rt 0 (request_of offline_rt example_bot ''POST'' ''/fapi/v1/order'' None empty_world)
       = Inl (Exn ConnectionError ''Connection refused'')"
    by (simp add: offline_rt_def)
  have x: "exchange_outcome offline_rt 0
             (request_of offline_rt example_bot ''POST'' ''/fapi/v1/order'' None empty_world)
       = Inl (Exn ConnectionError ''Connection refused'')"
    by (simp add: exchange_outcome_def offline_rt_def)
  have r: "is_RequestException (Exn ConnectionError ''Connection refused'')"
    by (simp add: is_RequestException_def)
  have w: "length (wire empty_world) = 0" by (simp add: empty_world_def)
  show ?thesis
    using send_signed_request_raises_failure
            [OF upper_POST_or_GET, of offline_rt empty_world example_bot "''/fapi/v1/order''" None]
          h x r
    by (simp add: w upper_POST)
qed

subsection \<open>The signed query string and the log\<close>

lemma dict_set_append: "k \<notin> fst ` set d \<Longrightarrow> dict_set k v d = d @ [(k, v)]"
  by (induction d) auto

lemma map_of_dict_set: "map_of (dict_set k v d) = (map_of d)(k \<mapsto> v)"
  by (induction d) (auto simp: fun_eq_iff)

lemma keys_dict_set: "fst ` set (dict_set k v d) = insert k (fst ` set d)"
  by (simp add: dom_map_of_conv_image_fst [symmetric] map_of_dict_set)

lemma sign_payload_eq:
  "sign_payload rt self p
     = urlencode p @ ''&signature='' @ hmac_sha256_hex rt (api_secret self) (utf8_encode (urlencode p))"
  by (simp add: sign_payload_def Let_def)

text \<open>
  Claim C2, as the code has it. Every call of \<open>_send_signed_request\<close> first logs, at level
  INFO, the line \<open>REQUEST -> METHOD url?query&signature=digest\<close>: the logged request line
  holds the whole signed query string, the signature value included.
\<close>

theorem request_line_contains_signature:
  "\<exists>more. logged (snd (send_signed_request rt self method path params w))
            = logged w
              @ (INFO, ''REQUEST -> '' @ upper method @ '' '' @ base_url self @ path @ ''?''
                       @ urlencode (signed_params rt params w) @ ''&signature=''
                       @ hmac_sha256_hex rt (api_secret self)
                           (utf8_encode (urlencode (signed_params rt params w))))
              # more"
  using send_logged [of rt self _ _ params w] by (simp add: sign_payload_eq)

lemma base_url_example: "base_url example_bot = ''https://testnet.binancefuture.com''"
  by (simp add: example_bot_def BasicBot_init_def DEFAULT_TESTNET_BASE_def rstrip_def Let_def)

lemma str_int_example: "str_int 1700000000000 = ''1700000000000''"
  by (simp add: str_int_def str_nat_digit str_nat_more digit_char_def)

lemma urlencode_timestamp:
  "urlencode [(''timestamp'', PInt 1700000000000)] = ''timestamp=1700000000000''"
  by (simp add: urlencode_def str_int_example quote_plus_def quote_char_def always_safe_def)

lemma signed_params_example:
  "signed_params example_rt None empty_world = [(''timestamp'', PInt 1700000000000)]"
  by (simp add: signed_params_def example_rt_def)

text \<open>
  Claim C2 fails on the code: for a POST with no parameters at time 1700000000000 the
  first logged line ends in \<open>&signature=\<close> followed by the digest of the query under the
  bot's secret.
\<close>

theorem request_line_shows_signature:
  "logged (snd (send_signed_request example_rt example_bot ''POST'' ''/fapi/v1/order'' None
                  empty_world)) ! 0
     = (INFO, ''REQUEST -> POST https://testnet.binancefuture.com/fapi/v1/order?timestamp=1700000000000&signature=''
              @ hmac_sha256_hex example_rt (api_secret example_bot)
                  (utf8_encode ''timestamp=1700000000000''))"
proof -
  have e: "logged empty_world = []" by (simp add: empty_world_def)
  from send_logged [of example_rt example_bot "''POST''" "''/fapi/v1/order''" None empty_world]
  show ?thesis
    by (auto simp: e sign_payload_eq signed_params_example urlencode_timestamp base_url_example
        upper_POST)
qed

lemma dict_set_keys_kept: "k \<in> fst ` set d \<Longrightarrow> map fst (dict_set k v d) = map fst d"
  by (induction d) force+

text \<open>
  Claim C5, as the code has it. Let \<open>d\<close> be the parameter mapping (empty for \<open>None\<close>), \<open>d'\<close>
  the mapping after \<open>params['timestamp'] = int(time.time() * 1000)\<close>, and \<open>query\<close> the pairs
  of \<open>d'\<close> in their order, each as quoted key, \<open>=\<close>, quoted value, joined by \<open>&\<close>. Then the
  one request sent has the URL \<open>base_url + path + '?' + query + '&signature=' + digest\<close>,
  where \<open>digest\<close> is the HMAC-SHA256 hex digest of exactly the bytes of \<open>query\<close> under the
  secret, which is also what \<open>_sign_payload\<close> returns for \<open>d'\<close>: the signature is the final
  parameter. The timestamp is appended as the last pair of \<open>d'\<close> when \<open>d\<close> has no
  \<open>timestamp\<close> key; when it has one, the keys keep their order and only the value of
  \<open>timestamp\<close> is replaced.
\<close>

theorem signature_covers_query:
  assumes "upper method = ''POST'' \<or> upper method = ''GET''"
    and "d = (case params of None \<Rightarrow> [] | Some a \<Rightarrow> deref w a)"
    and "d' = dict_set ''timestamp'' (PInt (now_ms rt (ticks w))) d"
    and "query = join ''&'' (map (\<lambda>(k, v). quote_plus k @ ''='' @ quote_plus (str_pyval v)) d')"
  shows "wire (snd (send_signed_request rt self method path params w))
           = wire w
             @ [\<lparr>req_method = upper method,
                 req_url = base_url self @ path @ ''?'' @ query @ ''&signature=''
                           @ hmac_sha256_hex rt (api_secret self) (utf8_encode query),
                 req_headers = session_headers self, req_timeout = 10\<rparr>]
       \<and> sign_payload rt self d'
           = query @ ''&signature='' @ hmac_sha256_hex rt (api_secret self) (utf8_encode query)
       \<and> (''timestamp'' \<notin> fst ` set d \<longrightarrow> d' = d @ [(''timestamp'', PInt (now_ms rt (ticks w)))])
       \<and> (''timestamp'' \<in> fst ` set d \<longrightarrow>
            map fst d' = map fst d
            \<and> map_of d' = (map_of d)(''timestamp'' \<mapsto> PInt (now_ms rt (ticks w))))"
proof -
  have sp: "signed_params rt params w = d'" by (simp add: signed_params_def assms(2,3))
  have q: "urlencode d' = query" by (simp add: urlencode_def assms(4))
  show ?thesis
    using send_wire [OF assms(1), of rt self _ params w]
    by (simp add: request_of_def sp sign_payload_eq q)
       (simp add: assms(3) dict_set_append dict_set_keys_kept map_of_dict_set)
qed

lemma api_secret_example: "api_secret example_bot = [115, 51, 99, 114, 101, 116]"
  by (simp add: example_bot_def BasicBot_init_def Let_def utf8_encode_def)

lemma session_headers_example: "session_headers example_bot = [(''X-MBX-APIKEY'', ''key'')]"
  by (simp add: example_bot_def BasicBot_init_def Let_def)

lemma query_quoted_example:
  "join ''&'' (map (\<lambda>(k, v). quote_plus k @ ''='' @ quote_plus (str_pyval v))
                 [(''symbol'', PStr ''BTC/USDT''), (''note'', PStr ''a b&c''),
                  (''memo'', PStr [CHR 0xE9]), (''timestamp'', PInt 1700000000000)])
     = ''symbol=BTC%2FUSDT&note=a+b%26c&memo=%C3%A9&timestamp=1700000000000''"
  by (simp add: str_int_example quote_plus_def quote_char_def always_safe_def utf8_encode_def
      hex_upper_def)

lemma digest_quoted_example:
  "example_digest [115, 51, 99, 114, 101, 116]
     (utf8_encode ''symbol=BTC%2FUSDT&note=a+b%26c&memo=%C3%A9&timestamp=1700000000000'')
     = ''23462''"
  by (simp add: example_digest_def utf8_encode_def str_nat_digit str_nat_more digit_char_def)

theorem signature_covers_query_witness:
  "upper ''POST'' = ''POST''
   \<and> ''timestamp'' \<notin> fst ` set [(''symbol'', PStr ''BTC/USDT''), (''note'', PStr ''a b&c''),
                                 (''memo'', PStr [CHR 0xE9])]
   \<and> wire (snd (send_signed_request example_rt example_bot ''POST'' ''/fapi/v1/order'' (Some 0)
                   (empty_world\<lparr>heap := [[(''symbol'', PStr ''BTC/USDT''),
                                          (''note'', PStr ''a b&c''),
                                          (''memo'', PStr [CHR 0xE9])]]\<rparr>)))
       = [\<lparr>req_method = ''POST'',
           req_url = ''https://testnet.binancefuture.com/fapi/v1/order?symbol=BTC%2FUSDT&note=a+b%26c&memo=%C3%A9&timestamp=1700000000000&signature=23462'',
           req_headers = [(''X-MBX-APIKEY'', ''key'')], req_timeout = 10\<rparr>]
   \<and> sign_payload example_rt example_bot
         [(''symbol'', PStr ''BTC/USDT''), (''note'', PStr ''a b&c''),
          (''memo'', PStr [CHR 0xE9]), (''timestamp'', PInt 1700000000000)]
       = ''symbol=BTC%2FUSDT&note=a+b%26c&memo=%C3%A9&timestamp=1700000000000&signature=23462''"
proof -
  let ?d = "[(''symbol'', PStr ''BTC/USDT''), (''note'', PStr ''a b&c''),
             (''memo'', PStr [CHR 0xE9])]"
  let ?w = "empty_world\<lparr>heap := [?d]\<rparr>"
  have k: "''timestamp'' \<notin> fst ` set ?d"
    by simp
  have d: "?d = (case Some 0 of None \<Rightarrow> [] | Some a \<Rightarrow> deref ?w a)"
    by (simp add: deref_def)
  have d': "[(''symbol'', PStr ''BTC/USDT''), (''note'', PStr ''a b&c''),
             (''memo'', PStr [CHR 0xE9]), (''timestamp'', PInt 1700000000000)]
              = dict_set ''timestamp'' (PInt (now_ms example_rt (ticks ?w))) ?d"
    by (simp add: example_rt_def)
  have e: "wire ?w = []" by (simp add: empty_world_def)
  have g: "hmac_sha256_hex example_rt = example_digest" by (simp add: example_rt_def)
  from signature_covers_query
         [OF upper_POST_or_GET d d' query_quoted_example [symmetric],
          of example_bot "''/fapi/v1/order''"]
  show ?thesis
    by (simp add: upper_POST base_url_example session_headers_example e g api_secret_example
        digest_quoted_example)
qed

text \<open>
  Claim C5 does not hold for every mapping: in a mapping that already has a \<open>timestamp\<close>
  key, here as its first key, the timestamp is not appended. The value is overwritten where
  the key stands, and the signed query starts with \<open>timestamp=\<close>.
\<close>

theorem existing_timestamp_is_overwritten_in_place:
  "heap (snd (send_signed_request example_rt example_bot ''POST'' ''/fapi/v1/order'' (Some 0)
                (empty_world\<lparr>heap := [[(''timestamp'', PInt 5), (''symbol'', PStr ''BTCUSDT'')]]\<rparr>)))
     = [[(''timestamp'', PInt 1700000000000), (''symbol'', PStr ''BTCUSDT'')]]
   \<and> map req_url
         (wire (snd (send_signed_request example_rt example_bot ''POST'' ''/fapi/v1/order'' (Some 0)
                (empty_world\<lparr>heap := [[(''timestamp'', PInt 5), (''symbol'', PStr ''BTCUSDT'')]]\<rparr>))))
       = [''https://testnet.binancefuture.com/fapi/v1/order?timestamp=1700000000000&symbol=BTCUSDT&signature=21447'']"
proof -
  let ?w = "empty_world\<lparr>heap := [[(''timestamp'', PInt 5), (''symbol'', PStr ''BTCUSDT'')]]\<rparr>"
  have p: "params_or_new (Some 0) ?w = (0, ?w)"
    by (simp add: params_or_new_def deref_def)
  have h: "heap (snd (send_signed_request example_rt example_bot ''POST'' ''/fapi/v1/order'' (Some 0) ?w))
             = [[(''timestamp'', PInt 1700000000000), (''symbol'', PStr ''BTCUSDT'')]]"
    unfolding send_heap [OF p]
    by (simp add: set_timestamp_def deref_def example_rt_def empty_world_def)
  have sp: "signed_params example_rt (Some 0) ?w
              = [(''timestamp'', PInt 1700000000000), (''symbol'', PStr ''BTCUSDT'')]"
    by (simp add: signed_params_def deref_def example_rt_def empty_world_def)
  have ue: "urlencode [(''timestamp'', PInt 1700000000000), (''symbol'', PStr ''BTCUSDT'')]
              = ''timestamp=1700000000000&symbol=BTCUSDT''"
    by (simp add: urlencode_def str_int_example quote_plus_def quote_char_def always_safe_def)
  have dg: "example_digest [115, 51, 99, 114, 101, 116]
              (utf8_encode ''timestamp=1700000000000&symbol=BTCUSDT'') = ''21447''"
    by (simp add: example_digest_def utf8_encode_def str_nat_digit str_nat_more digit_char_def)
  have e: "wire ?w = []" by (simp add: empty_world_def)
  have g: "hmac_sha256_hex example_rt = example_digest" by (simp add: example_rt_def)
  have "map req_url
         (wire (snd (send_signed_request example_rt example_bot ''POST'' ''/fapi/v1/order'' (Some 0) ?w)))
       = [''https://testnet.binancefuture.com/fapi/v1/order?timestamp=1700000000000&symbol=BTCUSDT&signature=21447'']"
    by (simp add: send_wire [OF upper_POST_or_GET] e request_of_def sp sign_payload_eq ue
        base_url_example g api_secret_example dg)
  with h show ?thesis by simp
qed

subsection \<open>The caller's mapping\<close>

text \<open>
  Claim C10, as the code has it. For a call with a non-empty parameter mapping at address
  \<open>a\<close>, the heap afterwards is the heap before with only that mapping changed: its
  \<open>timestamp\<close> key is set to the clock reading, every other key keeps its value, the set of
  keys grows by \<open>timestamp\<close> alone (no \<open>signature\<close> key is inserted), and the signature
  is appended to the query string built from the mapping.
\<close>

theorem send_sets_timestamp_in_place:
  assumes "a < length (heap w)" and "heap w ! a \<noteq> []"
  shows "heap (snd (send_signed_request rt self method path (Some a) w))
           = (heap w)[a := dict_set ''timestamp'' (PInt (now_ms rt (ticks w))) (heap w ! a)]
       \<and> map_of (heap (snd (send_signed_request rt self method path (Some a) w)) ! a)
           = (map_of (heap w ! a))(''timestamp'' \<mapsto> PInt (now_ms rt (ticks w)))
       \<and> fst ` set (heap (snd (send_signed_request rt self method path (Some a) w)) ! a)
           = insert ''timestamp'' (fst ` set (heap w ! a))
       \<and> (\<exists>more. logged (snd (send_signed_request rt self method path (Some a) w))
             = logged w
               @ (INFO, ''REQUEST -> '' @ upper method @ '' '' @ base_url self @ path @ ''?''
                        @ urlencode (heap (snd (send_signed_request rt self method path (Some a) w)) ! a)
                        @ ''&signature=''
                        @ hmac_sha256_hex rt (api_secret self)
                            (utf8_encode (urlencode
                               (heap (snd (send_signed_request rt self method path (Some a) w)) ! a))))
               # more)"
proof -
  have p: "params_or_new (Some a) w = (a, w)"
    using assms by (simp add: params_or_new_def deref_def)
  have h: "heap (snd (send_signed_request rt self method path (Some a) w))
             = (heap w)[a := dict_set ''timestamp'' (PInt (now_ms rt (ticks w))) (heap w ! a)]"
    using assms by (simp add: send_heap [OF p] set_timestamp_def deref_def)
  have n: "heap (snd (send_signed_request rt self method path (Some a) w)) ! a
             = dict_set ''timestamp'' (PInt (now_ms rt (ticks w))) (heap w ! a)"
    using assms by (simp add: h)
  have sp: "signed_params rt (Some a) w = dict_set ''timestamp'' (PInt (now_ms rt (ticks w))) (heap w ! a)"
    using assms by (simp add: signed_params_def deref_def)
  show ?thesis
    using send_logged [of rt self _ _ "Some a" w]
    by (simp add: h [symmetric] n map_of_dict_set keys_dict_set sp sign_payload_eq)
qed

text \<open>
  Claim C10 fails for the empty mapping: \<open>params or {}\<close> replaces an empty dict by a new
  one, so the caller's dict at address 0 stays empty and the timestamp goes into the new
  dict at address 1.
\<close>

theorem send_leaves_empty_dict_untouched:
  "heap (snd (send_signed_request example_rt example_bot ''POST'' ''/fapi/v1/order'' (Some 0)
                (empty_world\<lparr>heap := [[]]\<rparr>)))
     = [[], [(''timestamp'', PInt 1700000000000)]]"
proof -
  have p: "params_or_new (Some 0) (empty_world\<lparr>heap := [[]]\<rparr>)
             = (1, empty_world\<lparr>heap := [[], []]\<rparr>)"
    by (simp add: params_or_new_def deref_def alloc_def)
  show ?thesis
    unfolding send_heap [OF p]
    by (simp add: set_timestamp_def deref_def example_rt_def empty_world_def)
qed

theorem send_sets_timestamp_in_place_witness:
  "(0::nat) < length (heap (empty_world\<lparr>heap := [[(''symbol'', PStr ''BTCUSDT'')]]\<rparr>))
   \<and> heap (empty_world\<lparr>heap := [[(''symbol'', PStr ''BTCUSDT'')]]\<rparr>) ! 0 \<noteq> []
   \<and> heap (snd (send_signed_request example_rt example_bot ''POST'' ''/fapi/v1/order'' (Some 0)
                  (empty_world\<lparr>heap := [[(''symbol'', PStr ''BTCUSDT'')]]\<rparr>)))
       = [[(''symbol'', PStr ''BTCUSDT''), (''timestamp'', PInt 1700000000000)]]"
proof -
  have a: "(0::nat) < length (heap (empty_world\<lparr>heap := [[(''symbol'', PStr ''BTCUSDT'')]]\<rparr>))"
    by simp
  have b: "heap (empty_world\<lparr>heap := [[(''symbol'', PStr ''BTCUSDT'')]]\<rparr>) ! 0 \<noteq> []"
    by simp
  from send_sets_timestamp_in_place [OF a b, of example_rt example_bot "''POST''" "''/fapi/v1/order''"]
  have "heap (snd (send_signed_request example_rt example_bot ''POST'' ''/fapi/v1/order'' (Some 0)
                  (empty_world\<lparr>heap := [[(''symbol'', PStr ''BTCUSDT'')]]\<rparr>)))
       = [[(''symbol'', PStr ''BTCUSDT''), (''timestamp'', PInt 1700000000000)]]"
    by (simp add: example_rt_def empty_world_def)
  with a b show ?thesis by blast
qed

subsection \<open>The secret\<close>

lemma sign_payload_secret:
  assumes "\<forall>m. hmac_sha256_hex rt (api_secret self) m = hmac_sha256_hex rt secret' m"
  shows "sign_payload rt (self\<lparr>api_secret := secret'\<rparr>) p = sign_payload rt self p"
  using assms by (simp add: sign_payload_def)

lemma send_secret:
  assumes "\<forall>m. hmac_sha256_hex rt (api_secret self) m = hmac_sha256_hex rt secret' m"
  shows "send_signed_request rt (self\<lparr>api_secret := secret'\<rparr>) method path params w
           = send_signed_request rt self method path params w"
  by (simp add: send_signed_request_def sign_payload_secret [OF assms] Let_def split_beta)

lemma twap_slice_secret:
  assumes "\<forall>m. hmac_sha256_hex rt (api_secret self) m = hmac_sha256_hex rt secret' m"
  shows "twap_slice rt (self\<lparr>api_secret := secret'\<rparr>) symbol side sq slices i responses w
           = twap_slice rt self symbol side sq slices i responses w"
  by (simp add: twap_slice_def place_market_order_def send_secret [OF assms] Let_def split_beta)

lemma twap_loop_secret:
  assumes "\<forall>m. hmac_sha256_hex rt (api_secret self) m = hmac_sha256_hex rt secret' m"
  shows "twap_loop rt (self\<lparr>api_secret := secret'\<rparr>) symbol side sq slices interval idx responses w
           = twap_loop rt self symbol side sq slices interval idx responses w"
  by (induction idx arbitrary: responses w)
     (simp_all add: twap_slice_secret [OF assms] Let_def split_beta split: option.splits)

text \<open>
  Claim C9. The secret enters the behaviour of the bot only through the digests computed
  with it as the HMAC key: replacing the secret by any other key that yields the same
  digests changes neither the result nor the world (requests with their URLs and headers,
  log, heap, output) of \<open>_send_signed_request\<close>, of the three order builders and of
  \<open>place_twap\<close>. Constructing the bot logs the same line for every secret, two bots built
  from different secrets differ in the \<open>api_secret\<close> field alone, and the only header the
  bot sets is \<open>X-MBX-APIKEY\<close> with the API key.
\<close>

theorem secret_used_only_as_hmac_key:
  assumes "\<forall>m. hmac_sha256_hex rt (api_secret self) m = hmac_sha256_hex rt secret' m"
  shows "send_signed_request rt (self\<lparr>api_secret := secret'\<rparr>) method path params w
           = send_signed_request rt self method path params w
       \<and> place_market_order rt (self\<lparr>api_secret := secret'\<rparr>) symbol side quantity reduce_only w
           = place_market_order rt self symbol side quantity reduce_only w
       \<and> place_limit_order rt (self\<lparr>api_secret := secret'\<rparr>) symbol side quantity price tif
             reduce_only w
           = place_limit_order rt self symbol side quantity price tif reduce_only w
       \<and> place_stop_limit rt (self\<lparr>api_secret := secret'\<rparr>) symbol side quantity stop_price price
             tif w
           = place_stop_limit rt self symbol side quantity stop_price price tif w
       \<and> place_twap rt (self\<lparr>api_secret := secret'\<rparr>) symbol side quantity slices interval w
           = place_twap rt self symbol side quantity slices interval w
       \<and> snd (BasicBot_init key s1 url w) = snd (BasicBot_init key s2 url w)
       \<and> fst (BasicBot_init key s2 url w)
           = (fst (BasicBot_init key s1 url w))\<lparr>api_secret := utf8_encode s2\<rparr>
       \<and> session_headers (fst (BasicBot_init key s1 url w)) = [(''X-MBX-APIKEY'', key)]"
  by (simp add: send_secret [OF assms] twap_loop_secret [OF assms] place_market_order_def
      place_limit_order_def place_stop_limit_def place_twap_def BasicBot_init_def Let_def
      split_beta split: sum.splits)

theorem secret_used_only_as_hmac_key_witness:
  "(\<forall>m. hmac_sha256_hex example_rt (api_secret (example_bot\<lparr>api_secret := [107]\<rparr>)) m
          = hmac_sha256_hex example_rt [107, 0] m)
   \<and> place_twap example_rt (example_bot\<lparr>api_secret := [107, 0]\<rparr>) ''BTCUSDT'' ''BUY'' 5 5 2
         empty_world
       = place_twap example_rt (example_bot\<lparr>api_secret := [107]\<rparr>) ''BTCUSDT'' ''BUY'' 5 5 2
           empty_world
   \<and> send_signed_request example_rt (example_bot\<lparr>api_secret := [107, 0]\<rparr>) ''POST''
         ''/fapi/v1/order'' None empty_world
       = send_signed_request example_rt (example_bot\<lparr>api_secret := [107]\<rparr>) ''POST''
           ''/fapi/v1/order'' None empty_world"
proof -
  have h: "\<forall>m. hmac_sha256_hex example_rt (api_secret (example_bot\<lparr>api_secret := [107]\<rparr>)) m
          = hmac_sha256_hex example_rt [107, 0] m"
    by (simp add: example_rt_def example_digest_def)
  show ?thesis
    using h secret_used_only_as_hmac_key [OF h, of "''POST''" "''/fapi/v1/order''" None empty_world
            "''BTCUSDT''" "''BUY''" 5 False 0 "''GTC''" 0 5 2]
    by simp
qed

subsection \<open>Where the quantity is checked\<close>

lemma validate_args_quantity:
  "arg_quantity a \<le> 0 \<Longrightarrow> \<exists>msg. validate_args a = Some msg"
  by (simp add: validate_args_def)

text \<open>
  Claim C8, as the code has it. The quantity is checked in one place, \<open>validate_args\<close> of the
  command line: when the quantity is not positive it raises \<open>SystemExit\<close>, and \<open>main\<close> logs
  \<open>Argument validation failed\<close> and lets the exit pass, before a bot exists; the world is
  otherwise unchanged, so no request was sent. The order methods of the bot check nothing:
  \<open>place_market_order\<close> sends one request for every quantity.
\<close>

theorem quantity_checked_by_validate_args_only:
  "(arg_quantity a \<le> 0 \<longrightarrow>
      (\<exists>msg. validate_args a = Some msg
            \<and> main rt a w
                = (Some msg, w\<lparr>logged := logged w @ [(ERROR, ''Argument validation failed: '' @ msg)]\<rparr>)))
   \<and> length (wire (snd (place_market_order rt self symbol side quantity reduce_only w)))
       = length (wire w) + 1"
proof -
  have "\<exists>msg. validate_args a = Some msg
            \<and> main rt a w
                = (Some msg, w\<lparr>logged := logged w @ [(ERROR, ''Argument validation failed: '' @ msg)]\<rparr>)"
    if "arg_quantity a \<le> 0"
  proof -
    from validate_args_quantity [OF that] obtain msg where m: "validate_args a = Some msg" ..
    then show ?thesis by (simp add: main_def log_error_def)
  qed
  moreover have "length (wire (snd (place_market_order rt self symbol side quantity reduce_only w)))
       = length (wire w) + 1"
    using place_market_order_outcome [of rt self symbol side quantity reduce_only w] by auto
  ultimately show ?thesis by blast
qed

theorem quantity_checked_by_validate_args_only_witness:
  "arg_quantity example_args \<le> 0
   \<and> validate_args example_args = Some ''quantity must be positive''
   \<and> main example_rt example_args empty_world
       = (Some ''quantity must be positive'',
          empty_world\<lparr>logged := [(ERROR, ''Argument validation failed: quantity must be positive'')]\<rparr>)"
proof -
  have q: "arg_quantity example_args \<le> 0" by (simp add: example_args_def)
  have v: "validate_args example_args = Some ''quantity must be positive''"
    by (simp add: validate_args_def example_args_def falsy_def)
  have l: "logged empty_world = []" by (simp add: empty_world_def)
  from quantity_checked_by_validate_args_only [of example_args example_rt empty_world] q v
  have "main example_rt example_args empty_world
       = (Some ''quantity must be positive'',
          empty_world\<lparr>logged := [(ERROR, ''Argument validation failed: quantity must be positive'')]\<rparr>)"
    by (simp add: l)
  with q v show ?thesis by blast
qed

lemma example_float_str_neg: "example_float_str (- 1) = ''-1.0''"
proof -
  have "\<lfloor>- 1 :: rat\<rfloor> = - 1" by (rule floor_unique) simp_all
  then show ?thesis
    by (simp add: example_float_str_def str_int_def str_nat_digit digit_char_def)
qed

text \<open>
  Claim C8 fails on the code: \<open>place_market_order\<close> with the quantity \<open>-1.0\<close> raises nothing;
  it sends the order with \<open>quantity=-1.0\<close> in the signed query and returns the decoded
  answer of the exchange.
\<close>

theorem place_market_order_sends_negative_quantity:
  "fst (place_market_order example_rt example_bot ''BTCUSDT'' ''BUY'' (- 1) False empty_world)
     = Inr (JDict [])
   \<and> map req_url (wire (snd (place_market_order example_rt example_bot ''BTCUSDT'' ''BUY'' (- 1) False
                                 empty_world)))
       = [''https://testnet.binancefuture.com/fapi/v1/order?symbol=BTCUSDT&side=BUY&type=MARKET&quantity=-1.0&reduceOnly=false&timestamp=1700000000000&signature=''
          @ hmac_sha256_hex example_rt (api_secret example_bot)
              (utf8_encode ''symbol=BTCUSDT&side=BUY&type=MARKET&quantity=-1.0&reduceOnly=false&timestamp=1700000000000'')]"
proof -
  let ?d = "[(''symbol'', PStr ''BTCUSDT''), (''side'', PStr ''BUY''), (''type'', PStr ''MARKET''),
             (''quantity'', PStr ''-1.0''), (''reduceOnly'', PStr ''false'')]"
  let ?d' = "[(''symbol'', PStr ''BTCUSDT''), (''side'', PStr ''BUY''), (''type'', PStr ''MARKET''),
              (''quantity'', PStr ''-1.0''), (''reduceOnly'', PStr ''false''),
              (''timestamp'', PInt 1700000000000)]"
  have u: "upper ''BTCUSDT'' = ''BTCUSDT''" "upper ''BUY'' = ''BUY''"
    by (simp_all add: upper_def upper_char_def latin1_lower_def latin1_upper_def)
  have l: "lower (str_bool False) = ''false''"
    by (simp add: lower_def lower_char_def str_bool_def latin1_lower_def latin1_upper_def)
  have f: "float_str example_rt (- 1) = ''-1.0''"
    by (simp add: example_rt_def example_float_str_neg)
  have pm: "place_market_order example_rt example_bot ''BTCUSDT'' ''BUY'' (- 1) False empty_world
          = send_signed_request example_rt example_bot ''POST'' ''/fapi/v1/order'' (Some 0)
              (empty_world\<lparr>heap := [?d]\<rparr>)"
    by (simp add: place_market_order_def alloc_def u l f empty_world_def)
  have sp: "signed_params example_rt (Some 0) (empty_world\<lparr>heap := [?d]\<rparr>)
              = ?d'"
    by (simp add: signed_params_def deref_def example_rt_def empty_world_def)
  have ue: "urlencode ?d'
              = ''symbol=BTCUSDT&side=BUY&type=MARKET&quantity=-1.0&reduceOnly=false&timestamp=1700000000000''"
    by (simp add: urlencode_def str_int_example quote_plus_def quote_char_def always_safe_def)
  have w: "wire (empty_world\<lparr>heap := [?d]\<rparr>) = []" by (simp add: empty_world_def)
  show ?thesis
    unfolding pm
    by (simp add: send_result [OF upper_POST_or_GET] send_wire [OF upper_POST_or_GET] w
        example_outcome_0 request_of_def sp ue sign_payload_eq base_url_example)
qed

subsection \<open>The per-slice quantity\<close>

lemma bit_length_0: "bit_length 0 = 0"
  by (simp add: bit_length.simps)

lemma bit_length_pos: "0 < n \<Longrightarrow> bit_length n = Suc (bit_length (n div 2))"
  by (simp add: bit_length.simps [of n])

lemma floor_rat_numeral: "\<lfloor>(numeral a :: rat) / numeral b\<rfloor> = numeral a div numeral b"
  using floor_divide_of_int_eq [of "numeral a" "numeral b", where ?'a = rat] by simp

lemma ceiling_rat_numeral: "\<lceil>(numeral a :: rat) / numeral b\<rceil> = - (- numeral a div numeral b)"
  using floor_divide_of_int_eq [of "- numeral a" "numeral b", where ?'a = rat]
  by (simp add: ceiling_def)

lemmas binary64_eval =
  binary64_def binade_def round_half_even_def pow2_def Let_def floor_rat_numeral
  ceiling_rat_numeral bit_length_0 bit_length_pos

lemma int_to_float_3: "int_to_float 3 = Inr 3"
  by (simp add: int_to_float_def binary64_eval)

lemma binary64_div_1e9_3: "binary64_div 1000000000 3 = Inr (5592405333333333 / 16777216)"
  by (simp add: binary64_div_def int_to_float_3) (simp add: binary64_eval)

lemma binary64_round_1e9_3:
  "binary64_round (5592405333333333 / 16777216) 8 = 5592405333333333 / 16777216"
  by (simp add: binary64_round_def round_half_even_def floor_rat_numeral Let_def)
     (simp add: binary64_eval)

lemma binary64_div_1_3: "binary64_div 1 3 = Inr (6004799503160661 / 18014398509481984)"
  by (simp add: binary64_div_def int_to_float_3) (simp add: binary64_eval)

lemma binary64_round_1_3:
  "binary64_round (6004799503160661 / 18014398509481984) 8 = 3002399721556333 / 9007199254740992"
  by (simp add: binary64_round_def round_half_even_def floor_rat_numeral Let_def)
     (simp add: binary64_eval)

lemma place_market_order_heap:
  "\<exists>ts. heap (snd (place_market_order rt self symbol side qy ro w))
          = heap w @ [[(''symbol'', PStr (upper symbol)), (''side'', PStr (upper side)),
                       (''type'', PStr ''MARKET''), (''quantity'', PStr (float_str rt qy)),
                       (''reduceOnly'', PStr (lower (str_bool ro))), (''timestamp'', PInt ts)]]"
proof -
  let ?d = "[(''symbol'', PStr (upper symbol)), (''side'', PStr (upper side)),
             (''type'', PStr ''MARKET''), (''quantity'', PStr (float_str rt qy)),
             (''reduceOnly'', PStr (lower (str_bool ro)))]"
  let ?w1 = "w\<lparr>heap := heap w @ [?d]\<rparr>"
  have p: "params_or_new (Some (length (heap w))) ?w1 = (length (heap w), ?w1)"
    by (simp add: params_or_new_def deref_def)
  have "heap (snd (place_market_order rt self symbol side qy ro w))
          = heap (set_timestamp rt (length (heap w)) ?w1)"
    unfolding place_market_order_def alloc_def Let_def split_conv by (rule send_heap [OF p])
  then show ?thesis by (simp add: set_timestamp_def deref_def)
qed

lemma twap_slice_heap:
  "\<exists>d. heap (snd (twap_slice rt self symbol side sq slices i responses w)) = heap w @ [d]
       \<and> map_of d ''quantity'' = Some (PStr (float_str rt (float_round rt sq 8)))"
proof -
  obtain ts where
    "heap (snd (place_market_order rt self symbol side (float_round rt sq 8) False
                  (log_info (''TWAP slice '' @ str_int (int i + 1) @ ''/'' @ str_int slices
                              @ '': qty='' @ float_str rt sq) w)))
       = heap w @ [[(''symbol'', PStr (upper symbol)), (''side'', PStr (upper side)),
                    (''type'', PStr ''MARKET''),
                    (''quantity'', PStr (float_str rt (float_round rt sq 8))),
                    (''reduceOnly'', PStr (lower (str_bool False))), (''timestamp'', PInt ts)]]"
    using place_market_order_heap
            [of rt self symbol side "float_round rt sq 8" False
                "log_info (''TWAP slice '' @ str_int (int i + 1) @ ''/'' @ str_int slices
                              @ '': qty='' @ float_str rt sq) w"]
    by (auto simp: log_info_def)
  then show ?thesis
    unfolding twap_slice_def Let_def
    by (auto simp: log_error_def split: prod.splits sum.splits)
qed

lemma twap_loop_heap:
  "\<exists>ds. heap (snd (twap_loop rt self symbol side sq slices interval idx responses w)) = heap w @ ds
        \<and> (\<forall>d\<in>set ds. map_of d ''quantity'' = Some (PStr (float_str rt (float_round rt sq 8))))
        \<and> ((\<forall>i\<in>set idx. int i < slices - 1 \<longrightarrow> sleep_error rt interval = None)
             \<longrightarrow> length ds = length idx)"
proof (induction idx arbitrary: responses w)
  case Nil
  show ?case by simp
next
  case (Cons i rest)
  obtain rs1 w1 where ts: "twap_slice rt self symbol side sq slices i responses w = (rs1, w1)"
    by (cases "twap_slice rt self symbol side sq slices i responses w")
  from twap_slice_heap [of rt self symbol side sq slices i responses w] ts obtain d where
    d: "heap w1 = heap w @ [d]"
       "map_of d ''quantity'' = Some (PStr (float_str rt (float_round rt sq 8)))"
    by auto
  show ?case
  proof (cases "int i < slices - 1 \<and> sleep_error rt interval \<noteq> None")
    case True
    then have "snd (twap_loop rt self symbol side sq slices interval (i # rest) responses w) = w1"
      by (auto simp: ts)
    with d True show ?thesis by (intro exI [of _ "[d]"]) auto
  next
    case False
    define w2 where "w2 = (if int i < slices - 1 then w1\<lparr>naps := naps w1 @ [interval]\<rparr> else w1)"
    have step: "twap_loop rt self symbol side sq slices interval (i # rest) responses w
                  = twap_loop rt self symbol side sq slices interval rest rs1 w2"
      using False by (auto simp: ts w2_def)
    have w2: "heap w2 = heap w @ [d]" using d by (simp add: w2_def)
    from Cons.IH [of rs1 w2] obtain ds where
      ih: "heap (snd (twap_loop rt self symbol side sq slices interval rest rs1 w2)) = heap w2 @ ds"
          "\<forall>d\<in>set ds. map_of d ''quantity'' = Some (PStr (float_str rt (float_round rt sq 8)))"
          "(\<forall>i\<in>set rest. int i < slices - 1 \<longrightarrow> sleep_error rt interval = None)
             \<longrightarrow> length ds = length rest"
      by blast
    show ?thesis
      unfolding step using ih d w2 by (intro exI [of _ "d # ds"]) auto
  qed
qed

lemma place_twap_heap:
  assumes "1 \<le> slices" and "float_div rt quantity slices = Inr q"
  shows "\<exists>ds. heap (snd (place_twap rt self symbol side quantity slices interval w)) = heap w @ ds
        \<and> (\<forall>d\<in>set ds. map_of d ''quantity'' = Some (PStr (float_str rt (float_round rt q 8))))
        \<and> ((1 < slices \<longrightarrow> sleep_error rt interval = None) \<longrightarrow> length ds = nat slices)"
proof -
  let ?w1 = "log_info (''Starting TWAP: '' @ side @ '' '' @ symbol @ '' total_qty=''
                                    @ float_str rt quantity @ '' slices='' @ str_int slices
                                    @ '' interval='' @ float_str rt interval) w"
  have run: "place_twap rt self symbol side quantity slices interval w
               = twap_loop rt self symbol side q slices interval [0..<nat slices] [] ?w1"
    using assms by (simp add: place_twap_def)
  have w1: "heap ?w1 = heap w" by (simp add: log_info_def)
  from twap_loop_heap [of rt self symbol side q slices interval "[0..<nat slices]" "[]" ?w1]
  obtain ds where
    "heap (snd (twap_loop rt self symbol side q slices interval [0..<nat slices] [] ?w1)) = heap ?w1 @ ds"
    "\<forall>d\<in>set ds. map_of d ''quantity'' = Some (PStr (float_str rt (float_round rt q 8)))"
    "(\<forall>i\<in>set [0..<nat slices]. int i < slices - 1 \<longrightarrow> sleep_error rt interval = None)
       \<longrightarrow> length ds = length [0..<nat slices]"
    by blast
  then show ?thesis
    unfolding run w1 by (intro exI [of _ ds]) auto
qed


lemma binary64_accurate_bound:
  assumes "binary64_accurate x y" and "\<bar>x\<bar> \<le> b" and "1 \<le> b"
  shows "\<bar>y - x\<bar> \<le> b / 2 ^ 53"
proof -
  have "\<bar>x\<bar> / 2 ^ 53 \<le> b / 2 ^ 53" using assms(2) by (simp add: divide_right_mono)
  moreover have "(1::rat) / 2 ^ 1075 \<le> 1 / 2 ^ 53" by simp
  moreover have "(1::rat) / 2 ^ 53 \<le> b / 2 ^ 53" using assms(3) by (simp add: divide_right_mono)
  ultimately show ?thesis using assms(1) by (simp add: binary64_accurate_def max_def split: if_splits)
qed

lemma rounded_quotient_close:
  fixes quantity q d8 r :: rat and slices :: int
  assumes N: "1 \<le> slices"
    and Q: "\<bar>quantity\<bar> \<le> of_int slices * 2 ^ 24"
    and a1: "binary64_accurate (quantity / of_int slices) q"
    and a2: "\<bar>d8 - q\<bar> \<le> 1 / (2 * 10 ^ 8)"
    and a3: "binary64_accurate d8 r"
  shows "\<bar>of_int slices * r - quantity\<bar> \<le> of_int slices / 10 ^ 8"
proof -
  define x where "x = quantity / of_int slices"
  have n: "(0::rat) < of_int slices" using N by simp
  have xb: "\<bar>x\<bar> \<le> 16777216"
    using Q n by (simp add: x_def pos_divide_le_eq mult.commute)
  have e1: "\<bar>q - x\<bar> \<le> 1 / 536870912"
    using binary64_accurate_bound [OF a1 [folded x_def] xb] by simp
  have e2: "\<bar>d8 - q\<bar> \<le> 1 / 200000000" using a2 by simp
  have db: "\<bar>d8\<bar> \<le> 16777217" using e1 e2 xb by linarith
  have e3: "\<bar>r - d8\<bar> \<le> 16777217 / 9007199254740992"
    using binary64_accurate_bound [OF a3 db] by simp
  have "\<bar>r - x\<bar> \<le> 1 / 100000000" using e1 e2 e3 by linarith
  then have close: "\<bar>r - x\<bar> \<le> 1 / 10 ^ 8" by simp
  have "of_int slices * r - quantity = of_int slices * (r - x)"
    using n by (simp add: x_def algebra_simps)
  then have "\<bar>of_int slices * r - quantity\<bar> = of_int slices * \<bar>r - x\<bar>"
    using n by (simp add: abs_mult)
  also have "\<dots> \<le> of_int slices * (1 / 10 ^ 8)"
    using close n by (simp add: mult_left_mono)
  finally show ?thesis by simp
qed

lemma bit_length_bounds: "0 < n \<Longrightarrow> 2 ^ (bit_length n - 1) \<le> n \<and> n < 2 ^ bit_length n"
proof (induction n rule: less_induct)
  case (less n)
  show ?case
  proof (cases "n div 2 = 0")
    case True
    with less.prems have n1: "n = Suc 0" by (simp add: div_eq_0_iff)
    have "bit_length (Suc 0) = Suc 0"
      by (simp add: bit_length.simps [of "Suc 0"] bit_length.simps [of 0])
    with n1 show ?thesis by simp
  next
    case False
    then have m: "0 < n div 2" "n div 2 < n" using less.prems by auto
    from less.IH [OF m(2) m(1)]
    have ih: "2 ^ (bit_length (n div 2) - 1) \<le> n div 2" "n div 2 < 2 ^ bit_length (n div 2)"
      by auto
    have bl: "bit_length n = Suc (bit_length (n div 2))"
      using less.prems by (simp add: bit_length.simps [of n])
    have pos: "0 < bit_length (n div 2)"
      using m(1) by (simp add: bit_length.simps [of "n div 2"])
    have "(2::nat) ^ bit_length (n div 2) = 2 * 2 ^ (bit_length (n div 2) - 1)"
      using pos by (cases "bit_length (n div 2)") simp_all
    with ih(1) have "(2::nat) ^ bit_length (n div 2) \<le> 2 * (n div 2)" by simp
    also have "\<dots> \<le> n" by simp
    finally have lo: "(2::nat) ^ (bit_length n - 1) \<le> n" by (simp add: bl)
    have "n < 2 * (n div 2) + 2" by linarith
    also have "\<dots> \<le> 2 * 2 ^ bit_length (n div 2)" using ih(2) by simp
    finally have hi: "n < 2 ^ bit_length n" by (simp add: bl)
    from lo hi show ?thesis ..
  qed
qed

lemma pow2_pos: "0 < pow2 k"
  by (simp add: pow2_def)

lemma pow2_nat: "pow2 (int n) = 2 ^ n"
  by (simp add: pow2_def)

lemma pow2_neg_nat: "pow2 (- int n) = 1 / 2 ^ n"
  by (cases n) (simp_all add: pow2_def nat_add_distrib)

lemma pow2_powi: "pow2 k = 2 powi k"
  by (simp add: pow2_def power_int_def field_simps)

lemma pow2_add: "pow2 (j + k) = pow2 j * pow2 k"
  by (simp add: pow2_powi power_int_add)

lemma binade_bounds:
  assumes "x \<noteq> 0"
  shows "pow2 (binade x) \<le> \<bar>x\<bar> \<and> \<bar>x\<bar> < pow2 (binade x + 1)"
proof (cases "1 \<le> \<bar>x\<bar>")
  case True
  define n where "n = nat \<lfloor>\<bar>x\<bar>\<rfloor>"
  have n: "0 < n" using True by (simp add: n_def)
  have e: "binade x = int (bit_length n) - 1" using True by (simp add: binade_def n_def)
  have bl: "0 < bit_length n" using n by (simp add: bit_length.simps [of n])
  from bit_length_bounds [OF n] have b: "2 ^ (bit_length n - 1) \<le> n" "n < 2 ^ bit_length n" by auto
  have fl: "of_nat n \<le> \<bar>x\<bar>" "\<bar>x\<bar> < of_nat n + 1"
    using True by (simp_all add: n_def) linarith+
  have "pow2 (binade x) = 2 ^ (bit_length n - 1)"
    using bl by (simp add: e pow2_def nat_diff_distrib')
  also have "\<dots> = of_nat (2 ^ (bit_length n - 1))" by simp
  also have "\<dots> \<le> of_nat n" using b(1) unfolding of_nat_le_iff .
  finally have lo: "pow2 (binade x) \<le> \<bar>x\<bar>" using fl(1) by simp
  have "Suc n \<le> 2 ^ bit_length n" using b(2) by simp
  then have "(of_nat (Suc n) :: rat) \<le> of_nat (2 ^ bit_length n)" unfolding of_nat_le_iff .
  then have "of_nat n + 1 \<le> (of_nat (2 ^ bit_length n) :: rat)" by simp
  also have "\<dots> = pow2 (binade x + 1)" by (simp add: e pow2_def)
  finally have "\<bar>x\<bar> < pow2 (binade x + 1)" using fl(2) by simp
  with lo show ?thesis ..
next
  case False
  define m where "m = \<lceil>1 / \<bar>x\<bar>\<rceil>"
  define n where "n = nat (m - 1)"
  have x: "0 < \<bar>x\<bar>" "\<bar>x\<bar> < 1" using assms False by simp_all
  have inv: "1 < 1 / \<bar>x\<bar>" using x by simp
  have m: "1 / \<bar>x\<bar> \<le> of_int m" "of_int m - 1 < 1 / \<bar>x\<bar>"
    unfolding m_def by linarith+
  have m2: "2 \<le> m" using inv m(1) by linarith
  have n: "0 < n" "int n = m - 1" using m2 by (simp_all add: n_def)
  have e: "binade x = - int (bit_length n)" using False by (simp add: binade_def n_def m_def)
  from bit_length_bounds [OF n(1)] have b: "2 ^ (bit_length n - 1) \<le> n" "n < 2 ^ bit_length n" by auto
  have bl: "0 < bit_length n" using n(1) by (simp add: bit_length.simps [of n])
  have M: "of_int m \<le> (2 ^ bit_length n :: rat)"
  proof -
    have "int n < 2 ^ bit_length n" using b(2) by (metis of_nat_less_iff of_nat_numeral of_nat_power)
    then have "m \<le> 2 ^ bit_length n" using n(2) by simp
    then show ?thesis by (metis of_int_le_iff of_int_numeral of_int_power)
  qed
  from m(1) M have "1 / \<bar>x\<bar> \<le> 2 ^ bit_length n" by (rule order_trans)
  then have lo: "pow2 (binade x) \<le> \<bar>x\<bar>"
    using x(1) by (simp add: e pow2_neg_nat field_simps)
  have M': "(2 ^ (bit_length n - 1) :: rat) \<le> of_int m - 1"
  proof -
    have "2 ^ (bit_length n - 1) \<le> int n" using b(1) by (metis of_nat_le_iff of_nat_numeral of_nat_power)
    then have "2 ^ (bit_length n - 1) \<le> m - 1" using n(2) by simp
    then show ?thesis by (metis of_int_le_iff of_int_numeral of_int_power of_int_diff of_int_1)
  qed
  from M' m(2) have "2 ^ (bit_length n - 1) < 1 / \<bar>x\<bar>" by (rule le_less_trans)
  moreover have "binade x + 1 = - int (bit_length n - 1)" using bl by (simp add: e)
  ultimately have "\<bar>x\<bar> < pow2 (binade x + 1)"
    using x(1) by (simp add: pow2_neg_nat field_simps)
  with lo show ?thesis ..
qed

lemma round_half_even_close: "\<bar>of_int (round_half_even y) - y\<bar> \<le> 1 / 2"
proof -
  have "of_int \<lfloor>y\<rfloor> \<le> y" "y < of_int \<lfloor>y\<rfloor> + 1" by linarith+
  then show ?thesis by (auto simp: round_half_even_def Let_def)
qed

lemma round_half_even_of_int: "round_half_even (of_int z) = z"
  by (simp add: round_half_even_def)

lemma binary64_is_accurate: "binary64_accurate x (binary64 x)"
proof (cases "x = 0")
  case True
  then show ?thesis by (simp add: binary64_accurate_def binary64_def)
next
  case False
  define k where "k = max (binade x) (- 1022) - 52"
  define p where "p = pow2 k"
  have p: "0 < p" by (simp add: p_def pow2_pos)
  have b: "binary64 x = of_int (round_half_even (x / p)) * p"
    using False by (simp add: binary64_def k_def p_def Let_def)
  have "binary64 x - x = (of_int (round_half_even (x / p)) - x / p) * p"
    using p by (simp add: b field_simps)
  then have "\<bar>binary64 x - x\<bar> = \<bar>of_int (round_half_even (x / p)) - x / p\<bar> * p"
    using p by (simp add: abs_mult)
  also have "\<dots> \<le> 1 / 2 * p"
    using round_half_even_close [of "x / p"] p by (simp add: mult_right_mono)
  finally have err: "\<bar>binary64 x - x\<bar> \<le> p / 2" by simp
  show ?thesis
  proof (cases "- 1022 \<le> binade x")
    case True
    then have "k = binade x + (- 52)" by (simp add: k_def)
    then have "p = pow2 (binade x) * pow2 (- 52)" unfolding p_def by (simp only: pow2_add)
    then have "p / 2 = pow2 (binade x) / 2 ^ 53" by (simp add: pow2_def)
    also have "\<dots> \<le> \<bar>x\<bar> / 2 ^ 53"
      using binade_bounds [OF False] by (simp add: divide_right_mono)
    finally have "p / 2 \<le> \<bar>x\<bar> / 2 ^ 53" .
    with err have "\<bar>binary64 x - x\<bar> \<le> \<bar>x\<bar> / 2 ^ 53" by (rule order_trans)
    then show ?thesis unfolding binary64_accurate_def by (rule max.coboundedI1)
  next
    case False
    then have "k = - 1074" by (simp add: k_def)
    then have h: "p / 2 = 1 / 2 ^ 1075" by (simp add: p_def pow2_def)
    have "\<bar>binary64 x - x\<bar> \<le> 1 / 2 ^ 1075" using err unfolding h .
    then show ?thesis unfolding binary64_accurate_def by (rule max.coboundedI2)
  qed
qed

lemma pow2_mono: "j \<le> k \<Longrightarrow> pow2 j \<le> pow2 k"
  by (simp add: pow2_powi power_int_increasing)

lemma binary64_of_int_exact:
  assumes "\<bar>n\<bar> < 2 ^ 53"
  shows "binary64 (of_int n) = of_int n"
proof (cases "n = 0")
  case True
  then show ?thesis by (simp add: binary64_def)
next
  case False
  define x :: rat where "x = of_int n"
  have x: "x \<noteq> 0" "1 \<le> \<bar>x\<bar>" "\<bar>x\<bar> < 2 ^ 53"
  proof -
    show "x \<noteq> 0" using False by (simp add: x_def)
    have "1 \<le> \<bar>n\<bar>" using False by simp
    then have "(of_int 1 :: rat) \<le> of_int \<bar>n\<bar>" unfolding of_int_le_iff .
    then show "1 \<le> \<bar>x\<bar>" by (simp add: x_def)
    have "(of_int \<bar>n\<bar> :: rat) < of_int (2 ^ 53)" using assms unfolding of_int_less_iff .
    then show "\<bar>x\<bar> < 2 ^ 53" by (simp add: x_def)
  qed
  define e where "e = binade x"
  have e0: "0 \<le> e"
    using x(2) bit_length_bounds [of "nat \<lfloor>\<bar>x\<bar>\<rfloor>"]
    by (simp add: e_def binade_def bit_length.simps [of "nat \<lfloor>\<bar>x\<bar>\<rfloor>"])
  have e52: "e \<le> 52"
  proof (rule ccontr)
    assume "\<not> e \<le> 52"
    then have "pow2 53 \<le> pow2 e" by (intro pow2_mono) simp
    also have "\<dots> \<le> \<bar>x\<bar>" using binade_bounds [OF x(1)] by (simp add: e_def)
    finally show False using x(3) by (simp add: pow2_def)
  qed
  define j where "j = nat (52 - e)"
  have k: "max e (- 1022) - 52 = - int j" using e0 e52 by (simp add: j_def)
  have p: "pow2 (- int j) = 1 / 2 ^ j" by (rule pow2_neg_nat)
  have "x / pow2 (- int j) = of_int (n * 2 ^ j)" by (simp add: p x_def)
  then have "round_half_even (x / pow2 (- int j)) = n * 2 ^ j"
    by (simp only: round_half_even_of_int)
  then have "binary64 x = of_int (n * 2 ^ j) * pow2 (- int j)"
    using x(1) by (simp add: binary64_def Let_def k [unfolded e_def])
  then show ?thesis by (simp add: p x_def)
qed

lemma binary64_div_accurate:
  assumes "1 \<le> slices" and "slices < 2 ^ 53"
  shows "binary64_div quantity slices = Inr (binary64 (quantity / of_int slices))"
proof -
  have "\<bar>slices\<bar> < 2 ^ 53" using assms by simp
  then have y: "binary64 (of_int slices) = of_int slices" by (rule binary64_of_int_exact)
  have "\<not> 2 ^ 1024 - 2 ^ 970 \<le> \<bar>slices\<bar>" using assms by simp
  then show ?thesis using assms(1) by (simp add: binary64_div_def int_to_float_def y)
qed

lemma binary64_round_decimal:
  "\<bar>of_int (round_half_even (q * 10 ^ d)) / 10 ^ d - q\<bar> \<le> 1 / (2 * 10 ^ d)"
proof -
  have "of_int (round_half_even (q * 10 ^ d)) / 10 ^ d - q
          = (of_int (round_half_even (q * 10 ^ d)) - q * 10 ^ d) / 10 ^ d"
    by (simp add: field_simps)
  then have "\<bar>of_int (round_half_even (q * 10 ^ d)) / 10 ^ d - q\<bar>
          = \<bar>of_int (round_half_even (q * 10 ^ d)) - q * 10 ^ d\<bar> / 10 ^ d"
    by (simp add: abs_divide)
  also have "\<dots> \<le> (1 / 2) / 10 ^ d"
    using round_half_even_close [of "q * 10 ^ d"] by (intro divide_right_mono) simp_all
  finally show ?thesis by simp
qed

lemma binary64_sum_within_tolerance:
  assumes "1 \<le> slices" and "slices < 2 ^ 53" and "\<bar>quantity\<bar> \<le> of_int slices * 2 ^ 24"
    and "binary64_div quantity slices = Inr q"
  shows "\<bar>of_int slices * binary64_round q 8 - quantity\<bar> \<le> of_int slices / 10 ^ 8"
proof -
  have q: "q = binary64 (quantity / of_int slices)"
    using binary64_div_accurate [OF assms(1,2), of quantity] assms(4) by simp
  have a1: "binary64_accurate (quantity / of_int slices) q"
    unfolding q by (rule binary64_is_accurate)
  have a3: "binary64_accurate (of_int (round_half_even (q * 10 ^ 8)) / 10 ^ 8) (binary64_round q 8)"
    unfolding binary64_round_def by (rule binary64_is_accurate)
  show ?thesis
    by (rule rounded_quotient_close [OF assms(1,3) a1 binary64_round_decimal a3])
qed

text \<open>
  Claim C7, as the code has it. Let \<open>q\<close> be the float \<open>float(quantity) / slices\<close>. Every order
  that \<open>place_twap\<close> places, however far the run gets, carries the quantity
  \<open>str(round(q, 8))\<close>, the same value in every slice, and a run in which \<open>time.sleep\<close> does
  not raise places exactly \<open>N\<close> of them. The sum of the \<open>N\<close> per-slice quantities,
  \<open>N * round(q, 8)\<close>, is within \<open>N / 10 ^ 8\<close> of the total quantity when \<open>\<bar>Q\<bar> \<le> N * 2 ^ 24\<close>
  and the two float operations are correctly rounded: \<open>q\<close> is the double nearest to \<open>Q / N\<close>,
  and \<open>round(q, 8)\<close> is the double nearest to a decimal \<open>d8\<close> within \<open>0.5 / 10 ^ 8\<close> of \<open>q\<close>.
  The division and \<open>round\<close> of binary floats are such operations, for every \<open>N < 2 ^ 53\<close>.
\<close>

theorem per_slice_quantity_and_sum:
  assumes "1 \<le> slices" and "float_div rt quantity slices = Inr q"
  shows "(\<exists>ds. heap (snd (place_twap rt self symbol side quantity slices interval w)) = heap w @ ds
            \<and> (\<forall>d\<in>set ds. map_of d ''quantity''
                              = Some (PStr (float_str rt (float_round rt q 8))))
            \<and> ((1 < slices \<longrightarrow> sleep_error rt interval = None) \<longrightarrow> length ds = nat slices))
       \<and> (\<bar>quantity\<bar> \<le> of_int slices * 2 ^ 24
            \<and> binary64_accurate (quantity / of_int slices) q
            \<and> \<bar>d8 - q\<bar> \<le> 1 / (2 * 10 ^ 8)
            \<and> binary64_accurate d8 (float_round rt q 8)
          \<longrightarrow> \<bar>of_int slices * float_round rt q 8 - quantity\<bar> \<le> of_int slices / 10 ^ 8)
       \<and> (\<bar>quantity\<bar> \<le> of_int slices * 2 ^ 24
            \<and> slices < 2 ^ 53
            \<and> float_div rt = binary64_div
            \<and> float_round rt = binary64_round
          \<longrightarrow> \<bar>of_int slices * float_round rt q 8 - quantity\<bar> \<le> of_int slices / 10 ^ 8)"
proof -
  have "\<bar>of_int slices * float_round rt q 8 - quantity\<bar> \<le> of_int slices / 10 ^ 8"
    if "\<bar>quantity\<bar> \<le> of_int slices * 2 ^ 24" "slices < 2 ^ 53"
       "float_div rt = binary64_div" "float_round rt = binary64_round"
    using binary64_sum_within_tolerance [OF assms(1) that(2,1), of q] assms(2) that(3,4)
    by simp
  with place_twap_heap [OF assms] rounded_quotient_close [OF assms(1)] show ?thesis by blast
qed

text \<open>
  Claim C7 fails for large quotients. For \<open>Q = 1e9\<close> and \<open>N = 3\<close> the double nearest to
  \<open>Q / N\<close> is \<open>5592405333333333 / 2 ^ 24\<close>, \<open>round\<close> to 8 places returns the same double,
  all three orders carry it, and three times this value misses \<open>Q\<close> by \<open>1 / 2 ^ 24\<close>, about
  \<open>5.96 / 10 ^ 8\<close>, more than \<open>3 / 10 ^ 8\<close>.
\<close>

theorem twap_sum_exceeds_tolerance:
  "float_div binary64_rt 1000000000 3 = Inr (5592405333333333 / 16777216)
   \<and> float_round binary64_rt (5592405333333333 / 16777216) 8 = 5592405333333333 / 16777216
   \<and> map (\<lambda>d. map_of d ''quantity'')
        (heap (snd (place_twap binary64_rt example_bot ''BTCUSDT'' ''BUY'' 1000000000 3 1 empty_world)))
       = replicate 3 (Some (PStr (float_str binary64_rt (5592405333333333 / 16777216))))
   \<and> 3 / 10 ^ 8 < \<bar>3 * (5592405333333333 / 16777216) - (1000000000 :: rat)\<bar>"
proof -
  have a: "float_div binary64_rt 1000000000 3 = Inr (5592405333333333 / 16777216)"
    by (simp add: binary64_rt_def binary64_div_1e9_3)
  have b: "float_round binary64_rt (5592405333333333 / 16777216) 8 = 5592405333333333 / 16777216"
    by (simp add: binary64_rt_def binary64_round_1e9_3)
  have s: "sleep_error binary64_rt 1 = None"
    by (simp add: binary64_rt_def example_rt_def cpython_sleep_error_def)
  have h: "heap empty_world = []" by (simp add: empty_world_def)
  from place_twap_heap [OF _ a, of example_bot "''BTCUSDT''" "''BUY''" 1 empty_world] s
  obtain ds where
    ds: "heap (snd (place_twap binary64_rt example_bot ''BTCUSDT'' ''BUY'' 1000000000 3 1 empty_world))
           = ds"
        "\<forall>d\<in>set ds. map_of d ''quantity''
                       = Some (PStr (float_str binary64_rt (5592405333333333 / 16777216)))"
        "length ds = 3"
    by (auto simp: h b)
  have "map (\<lambda>d. map_of d ''quantity'') ds
          = replicate 3 (Some (PStr (float_str binary64_rt (5592405333333333 / 16777216))))"
    using ds(2,3) by (intro replicate_eqI) auto
  moreover have "3 / 10 ^ 8 < \<bar>3 * (5592405333333333 / 16777216) - (1000000000 :: rat)\<bar>"
    by simp
  ultimately show ?thesis using a b ds(1) by simp
qed

theorem per_slice_quantity_and_sum_witness:
  "(1::int) \<le> 3
   \<and> float_div binary64_rt 1 3 = Inr (6004799503160661 / 18014398509481984)
   \<and> float_round binary64_rt (6004799503160661 / 18014398509481984) 8
       = 3002399721556333 / 9007199254740992
   \<and> sleep_error binary64_rt 1 = None
   \<and> \<bar>1 :: rat\<bar> \<le> of_int 3 * 2 ^ 24
   \<and> binary64_accurate (1 / of_int 3) (6004799503160661 / 18014398509481984)
   \<and> \<bar>33333333 / 100000000 - 6004799503160661 / 18014398509481984 :: rat\<bar> \<le> 1 / (2 * 10 ^ 8)
   \<and> binary64_accurate (33333333 / 100000000) (3002399721556333 / 9007199254740992)
   \<and> (3 :: int) < 2 ^ 53
   \<and> float_div binary64_rt = binary64_div
   \<and> float_round binary64_rt = binary64_round
   \<and> map (\<lambda>d. map_of d ''quantity'')
        (heap (snd (place_twap binary64_rt example_bot ''BTCUSDT'' ''BUY'' 1 3 1 empty_world)))
       = replicate 3 (Some (PStr (float_str binary64_rt (3002399721556333 / 9007199254740992))))
   \<and> \<bar>3 * (3002399721556333 / 9007199254740992) - (1 :: rat)\<bar> \<le> 3 / 10 ^ 8"
proof -
  have n: "(1::int) \<le> 3" by simp
  have a: "float_div binary64_rt 1 3 = Inr (6004799503160661 / 18014398509481984)"
    by (simp add: binary64_rt_def binary64_div_1_3)
  have b: "float_round binary64_rt (6004799503160661 / 18014398509481984) 8
             = 3002399721556333 / 9007199254740992"
    by (simp add: binary64_rt_def binary64_round_1_3)
  have s: "sleep_error binary64_rt 1 = None"
    by (simp add: binary64_rt_def example_rt_def cpython_sleep_error_def)
  have q: "\<bar>1 :: rat\<bar> \<le> of_int 3 * 2 ^ 24" by simp
  have a1: "binary64_accurate (1 / of_int 3) (6004799503160661 / 18014398509481984)"
    by (simp add: binary64_accurate_def)
  have a2: "\<bar>33333333 / 100000000 - 6004799503160661 / 18014398509481984 :: rat\<bar> \<le> 1 / (2 * 10 ^ 8)"
    by simp
  have a3: "binary64_accurate (33333333 / 100000000) (3002399721556333 / 9007199254740992)"
    by (simp add: binary64_accurate_def)
  have m: "(3 :: int) < 2 ^ 53" by simp
  have f: "float_div binary64_rt = binary64_div" "float_round binary64_rt = binary64_round"
    by (simp_all add: binary64_rt_def)
  have h: "heap empty_world = []" by (simp add: empty_world_def)
  note inst = per_slice_quantity_and_sum
         [OF n a, of example_bot "''BTCUSDT''" "''BUY''" 1 empty_world "33333333 / 100000000"]
  from inst s obtain ds where
    ds: "heap (snd (place_twap binary64_rt example_bot ''BTCUSDT'' ''BUY'' 1 3 1 empty_world)) = ds"
        "\<forall>d\<in>set ds. map_of d ''quantity''
                       = Some (PStr (float_str binary64_rt (3002399721556333 / 9007199254740992)))"
        "length ds = 3"
    by (auto simp: h b)
  from inst q m f have sum: "\<bar>3 * (3002399721556333 / 9007199254740992) - (1 :: rat)\<bar> \<le> 3 / 10 ^ 8"
    by (simp add: b)
  have "map (\<lambda>d. map_of d ''quantity'') ds
          = replicate 3 (Some (PStr (float_str binary64_rt (3002399721556333 / 9007199254740992))))"
    using ds(2,3) by (intro replicate_eqI) auto
  with n a b s q a1 a2 a3 m f ds(1) sum show ?thesis by simp
qed

end
